theory Spec2Isabelle
  imports Main
begin

section \<open>JavaScript strings\<close>

text \<open>
  A JavaScript string is a sequence of UTF-16 code units; a code unit is modelled as a
  natural number. \<open>js\<close> turns an ASCII literal of the source into its code units.
\<close>

type_synonym jstring = "nat list"

definition js :: "string \<Rightarrow> jstring" where
  "js s = map of_char s"

text \<open>
  \<open>String.prototype.trim\<close> removes WhiteSpace and LineTerminator code points from both
  ends: TAB, LF, VT, FF, CR, SP, NBSP, U+1680, U+2000..U+200A, U+2028, U+2029, U+202F,
  U+205F, U+3000 and U+FEFF.
\<close>

definition is_ws :: "nat \<Rightarrow> bool" where
  "is_ws c \<longleftrightarrow>
     c \<in> set [9, 10, 11, 12, 13, 32, 160, 5760, 8232, 8233, 8239, 8287, 12288, 65279]
     \<or> (8192 \<le> c \<and> c \<le> 8202)"

definition trim :: "jstring \<Rightarrow> jstring" where
  "trim s = rev (dropWhile is_ws (rev (dropWhile is_ws s)))"

text \<open>The regular expression class \<open>\d\<close> (without the unicode flag) is \<open>[0-9]\<close>.\<close>

definition is_digit :: "nat \<Rightarrow> bool" where
  "is_digit c \<longleftrightarrow> 48 \<le> c \<and> c \<le> 57"

text \<open>\<open>/^\d{1,11}$/.test(s)\<close>: the whole string is one to eleven decimal digits.\<close>

definition digits_1_11 :: "jstring \<Rightarrow> bool" where
  "digits_1_11 s \<longleftrightarrow> 1 \<le> length s \<and> length s \<le> 11 \<and> list_all is_digit s"

text \<open>\<open>x ?? ''\<close> followed by \<open>String(...)\<close>, for a field that is a string when present.\<close>

definition nullish :: "jstring option \<Rightarrow> jstring" where
  "nullish x = (case x of None \<Rightarrow> [] | Some v \<Rightarrow> v)"

text \<open>\<open>String(x ?? '').trim() || undefined\<close>.\<close>

definition trimmed_or_undefined :: "jstring option \<Rightarrow> jstring option" where
  "trimmed_or_undefined x = (let v = trim (nullish x) in if v = [] then None else Some v)"

section \<open>The route store (\<open>server/routes_store.ts\<close>)\<close>

datatype RouteProvider = ollama | openai_compat | openclaw

record RouteConfig =
  number :: jstring
  label :: jstring
  provider :: RouteProvider
  model :: jstring
  voiceId :: "jstring option"
  baseUrl :: "jstring option"
  apiKey :: "jstring option"
  agentId :: "jstring option"
  avatarUrl :: "jstring option"

text \<open>
  \<open>normalizeRoute\<close> and \<open>normalizeRoutes\<close> read their argument as \<open>any\<close>: every field may
  be absent (\<open>undefined\<close> or \<open>null\<close>, here \<open>None\<close>) and the provider is an arbitrary string.
\<close>

record raw_route =
  raw_number :: "jstring option"
  raw_label :: "jstring option"
  raw_provider :: "jstring option"
  raw_model :: "jstring option"
  raw_voiceId :: "jstring option"
  raw_baseUrl :: "jstring option"
  raw_apiKey :: "jstring option"
  raw_agentId :: "jstring option"
  raw_avatarUrl :: "jstring option"

definition normalizeRoute :: "raw_route \<Rightarrow> RouteConfig" where
  "normalizeRoute r =
     (let num = trim (nullish (raw_number r));
          p = trim (nullish (raw_provider r));
          prov = (if p = js ''openai_compat'' then openai_compat
                  else if p = js ''openclaw'' then openclaw else ollama)
      in \<lparr> number = num,
           label = (case raw_label r of None \<Rightarrow> num | Some l \<Rightarrow> l),
           provider = prov,
           model = nullish (raw_model r),
           voiceId = trimmed_or_undefined (raw_voiceId r),
           baseUrl = trimmed_or_undefined (raw_baseUrl r),
           apiKey = (if prov = openai_compat \<or> prov = openclaw
                     then trimmed_or_undefined (raw_apiKey r) else None),
           agentId = (if prov = openclaw then trimmed_or_undefined (raw_agentId r) else None),
           avatarUrl = trimmed_or_undefined (raw_avatarUrl r) \<rparr>)"

text \<open>
  The body of the \<open>for\<close> loop of \<open>normalizeRoutes\<close>, with the loop variables \<open>seen\<close> and
  \<open>out\<close> passed along. A number enters \<open>seen\<close> before the model is looked at.
\<close>

fun normalizeRoutes_loop ::
  "raw_route list \<Rightarrow> jstring set \<Rightarrow> RouteConfig list \<Rightarrow> RouteConfig list" where
  "normalizeRoutes_loop [] seen out = out"
| "normalizeRoutes_loop (r # rs) seen out =
     (let num = trim (nullish (raw_number r)) in
      if \<not> digits_1_11 num then normalizeRoutes_loop rs seen out
      else if num \<in> seen then normalizeRoutes_loop rs seen out
      else
        (let nr = normalizeRoute (r\<lparr>raw_number := Some num\<rparr>) in
         if model nr = [] then normalizeRoutes_loop rs (insert num seen) out
         else normalizeRoutes_loop rs (insert num seen)
                (out @ [if label nr = [] then nr\<lparr>label := num\<rparr> else nr])))"

definition normalizeRoutes :: "raw_route list \<Rightarrow> RouteConfig list" where
  "normalizeRoutes routes = normalizeRoutes_loop routes {} []"

text \<open>\<open>getRoute\<close> of the server and the lookup in \<open>connectFromDial\<close>: \<open>routes.find\<close>.\<close>

definition getRoute :: "RouteConfig list \<Rightarrow> jstring \<Rightarrow> RouteConfig option" where
  "getRoute rs n = find (\<lambda>r. number r = n) rs"

section \<open>The call orchestrator (\<open>src/App.tsx\<close>): data\<close>

datatype Role = user | assistant

text \<open>\<open>ChatMsg\<close>; the optional field \<open>pending\<close> is \<open>None\<close> when it is absent.\<close>

record ChatMsg =
  msg_id :: jstring
  role :: Role
  msg_text :: jstring
  msg_t :: nat
  pending :: "bool option"

text \<open>\<open>ChatStatus\<close> of the \<open>ai\<close> package.\<close>

datatype ChatStatus = submitted | streaming | ready | error

text \<open>
  What a handler reads from the clock and the random generator when it creates a message:
  \<open>Date.now()\<close> for the identifier, \<open>Math.random().toString(16).slice(2)\<close>, and
  \<open>Date.now()\<close> for the field \<open>t\<close>.
\<close>

record entropy =
  now_id :: nat
  rnd :: jstring
  now_t :: nat

function decimal :: "nat \<Rightarrow> jstring" where
  "decimal n = (if n < 10 then [48 + n] else decimal (n div 10) @ [48 + n mod 10])"
  by pat_completeness auto
termination
  by (relation "measure (\<lambda>n. n)") auto

declare decimal.simps [simp del]

text \<open>The template \<open>`a:${Date.now()}:${Math.random().toString(16).slice(2)}`\<close> and its \<open>u:\<close> twin.\<close>

definition fresh_id :: "string \<Rightarrow> entropy \<Rightarrow> jstring" where
  "fresh_id p e = js p @ decimal (now_id e) @ js '':'' @ rnd e"

definition user_msg :: "entropy \<Rightarrow> jstring \<Rightarrow> ChatMsg" where
  "user_msg e txt =
     \<lparr> msg_id = fresh_id ''u:'' e, role = user, msg_text = txt, msg_t = now_t e, pending = None \<rparr>"

text \<open>The placeholder bubble; its text is the single character U+2026.\<close>

definition placeholder_text :: jstring where
  "placeholder_text = [8230]"

definition placeholder_msg :: "jstring \<Rightarrow> entropy \<Rightarrow> ChatMsg" where
  "placeholder_msg ident e =
     \<lparr> msg_id = ident, role = assistant, msg_text = placeholder_text, msg_t = now_t e,
       pending = Some True \<rparr>"

text \<open>\<open>xs.slice(-n)\<close>: the last \<open>n\<close> elements, all of them when there are fewer.\<close>

definition slice_last :: "nat \<Rightarrow> 'a list \<Rightarrow> 'a list" where
  "slice_last n xs = drop (length xs - n) xs"

text \<open>The updater \<open>(h) => [...h, m].slice(-60)\<close> given to \<open>setHistory\<close>.\<close>

definition append_msg :: "ChatMsg \<Rightarrow> ChatMsg list \<Rightarrow> ChatMsg list" where
  "append_msg m h = slice_last 60 (h @ [m])"

text \<open>The updater \<open>(h) => h.map((m) => (m.id === id ? { ...m, text, pending: false } : m))\<close>.\<close>

definition reveal :: "jstring \<Rightarrow> jstring \<Rightarrow> ChatMsg \<Rightarrow> ChatMsg" where
  "reveal ident txt m = (if msg_id m = ident then m\<lparr>msg_text := txt, pending := Some False\<rparr> else m)"

definition DIAL_ANIM_LAST_FRAME :: int where
  "DIAL_ANIM_LAST_FRAME = 120"

definition AB_ANIM_LAST_FRAME :: int where
  "AB_ANIM_LAST_FRAME = 192"

definition greeting_prompt :: jstring where
  "greeting_prompt = js (''Answer the phone with a short, natural greeting (1-2 sentences). '' @
     ''No stage directions, no quotes. Then ask how you can help.'')"

definition dtmf :: "jstring \<Rightarrow> (nat \<times> nat) option" where
  "dtmf k = map_of
     [(js ''1'', (697, 1209)), (js ''2'', (697, 1336)), (js ''3'', (697, 1477)),
      (js ''4'', (770, 1209)), (js ''5'', (770, 1336)), (js ''6'', (770, 1477)),
      (js ''7'', (852, 1209)), (js ''8'', (852, 1336)), (js ''9'', (852, 1477)),
      (js ''*'', (941, 1209)), (js ''0'', (941, 1336)), (js ''#'', (941, 1477))] k"

subsection \<open>The address-book animator\<close>

datatype ab_phase = ph_opening | ph_open | ph_closing

text \<open>The three \<open>onDone\<close> callbacks that \<open>playAbAnim\<close> is called with.\<close>

datatype ab_done = DoneNothing | DoneOpen | DoneClose

text \<open>The closure of one \<open>setInterval\<close> callback of \<open>playAbAnim\<close>.\<close>

record ab_timer =
  at_i :: int
  at_dir :: int
  at_to :: int
  at_onDone :: ab_done

text \<open>
  \<open>abTimers\<close> are the interval timers of the browser that \<open>playAbAnim\<close> created and nobody
  cleared, by handle; handles are positive, so a handle in \<open>abTimerRef\<close> is truthy.
  \<open>abDoneLog\<close> records the handle of the timer at each call of an \<open>onDone\<close>.
\<close>

record ab_state =
  addressBookOpen :: bool
  abFrame :: int
  abPlaying :: bool
  abPhase :: ab_phase
  abTimerRef :: "nat option"
  abTimers :: "(nat \<times> ab_timer) list"
  abNextTimer :: nat
  abDoneLog :: "nat list"

subsection \<open>The state of \<open>App\<close>\<close>

text \<open>The audio element behind \<open>audioRef\<close>: whether it plays, its position, the text it holds.\<close>

record audio =
  au_playing :: bool
  au_currentTime :: nat
  au_src :: "jstring option"

datatype ctx_state = ctx_running | ctx_suspended

datatype dial_done = FocusMobileDial | OpenDialModal

record dial_timer =
  dt_i :: int
  dt_onDone :: dial_done

text \<open>
  Suspended asynchronous functions. \<open>Greeting number animDone stage\<close> is a call of
  \<open>generateGreeting\<close> waiting in \<open>Promise.all\<close>: \<open>animDone\<close> says that \<open>animDoneP\<close> is
  resolved, \<open>stage\<close> how far \<open>greetP\<close> is (waiting for \<open>fetch\<close>, waiting for \<open>r.json()\<close>,
  resolved with the greeting). \<open>Chat number\<close> is a call of \<open>sendText\<close> waiting for its
  request. \<open>Tts chat ident text stage\<close> is a call of \<open>playTts\<close> with its \<open>onStart\<close> (which
  reveals \<open>ident\<close> as \<open>text\<close>), made by \<open>sendText\<close> when \<open>chat\<close> holds and by
  \<open>generateGreeting\<close> otherwise, waiting for the synthesis request or for \<open>play()\<close>.
\<close>

datatype fetch_stage = Headers | Body | Settled jstring

datatype tts_stage = TtsFetching | TtsStarting

datatype task =
    Greeting jstring bool fetch_stage
  | Chat jstring
  | Tts bool jstring jstring tts_stage

text \<open>Calls that leave \<open>App\<close> or that a claim orders, in the order they are made.\<close>

datatype call =
    Beep nat nat
  | AbortFetch nat
  | StartRingtone
  | StopRingtone
  | StopTts
  | StopDialAnim
  | FetchChat nat jstring jstring
  | FetchTts nat jstring "jstring option"
  | AudioPlay nat
  | OnStart nat
  | SetState string

text \<open>
  The hooks and refs of \<open>App\<close> that the orchestration uses. The three oscillator refs of the
  ringtone are set and cleared together and are one field. \<open>dialAnimTimerRef\<close> holds the
  closure of the interval it names: every write to that ref clears the old interval first.
  \<open>tasks\<close>, \<open>nextTask\<close> and \<open>trace\<close> are the pending promises of the runtime and the log of calls.
\<close>

record state =
  dialed :: jstring
  connectedNumber :: "jstring option"
  routes :: "RouteConfig list"
  history :: "ChatMsg list"
  speaking :: bool
  ttsPlaying :: bool
  chatStatus :: ChatStatus
  input :: jstring
  isMobile :: bool
  dialModalOpen :: bool
  dialAnimFrame :: int
  dialAnimPlaying :: bool
  dialAnimTimerRef :: "dial_timer option"
  dialAnimPlayingRef :: bool
  audioRef :: "audio option"
  ringCtxRef :: "ctx_state option"
  ringOscRef :: bool
  ringPatternTimerRef :: bool
  greetingAbortRef :: "nat option"
  ab :: ab_state
  tasks :: "nat \<rightharpoonup> task"
  nextTask :: nat
  trace :: "call list"

section \<open>The address-book animator: operations\<close>

text \<open>\<open>if (abTimerRef.current) { window.clearInterval(abTimerRef.current); abTimerRef.current = null }\<close>\<close>

definition clearAbTimer :: "ab_state \<Rightarrow> ab_state" where
  "clearAbTimer a =
     (case abTimerRef a of
        None \<Rightarrow> a
      | Some h \<Rightarrow> a\<lparr>abTimers := filter (\<lambda>(k, _). k \<noteq> h) (abTimers a), abTimerRef := None\<rparr>)"

definition stopAbAnim :: "bool \<Rightarrow> ab_state \<Rightarrow> ab_state" where
  "stopAbAnim resetFrame a =
     (let a = clearAbTimer a;
          a = a\<lparr>abPlaying := False\<rparr>
      in if resetFrame then a\<lparr>abFrame := 1\<rparr> else a)"

text \<open>\<open>playAbAnim\<close> up to the return of \<open>setInterval\<close>, whose handle is \<open>Suc (abNextTimer a)\<close>.\<close>

definition playAbAnim :: "int \<Rightarrow> int \<Rightarrow> ab_done \<Rightarrow> ab_state \<Rightarrow> ab_state" where
  "playAbAnim from to onDone a =
     (let a = clearAbTimer a;
          dir = (if to \<ge> from then 1 else - 1);
          a = a\<lparr>abFrame := from, abPlaying := True\<rparr>;
          h = Suc (abNextTimer a)
      in a\<lparr>abTimers := abTimers a @ [(h, \<lparr>at_i = from, at_dir = dir, at_to = to, at_onDone = onDone\<rparr>)],
           abTimerRef := Some h,
           abNextTimer := h\<rparr>)"

text \<open>The callbacks: \<open>() => setAbPhase('open')\<close>, and the one of \<open>closeAddressBook\<close>.\<close>

definition runAbDone :: "ab_done \<Rightarrow> ab_state \<Rightarrow> ab_state" where
  "runAbDone d a =
     (case d of
        DoneNothing \<Rightarrow> a
      | DoneOpen \<Rightarrow> a\<lparr>abPhase := ph_open\<rparr>
      | DoneClose \<Rightarrow> stopAbAnim True (a\<lparr>addressBookOpen := False, abPhase := ph_opening\<rparr>))"

text \<open>One firing of the interval with handle \<open>h\<close>; a cleared interval does not fire.\<close>

definition abTick :: "nat \<Rightarrow> ab_state \<Rightarrow> ab_state" where
  "abTick h a =
     (case map_of (abTimers a) h of
        None \<Rightarrow> a
      | Some t \<Rightarrow>
          (let i = at_i t + at_dir t;
               a = a\<lparr>abTimers := map (\<lambda>(k, v). if k = h then (k, v\<lparr>at_i := i\<rparr>) else (k, v)) (abTimers a)\<rparr>;
               done = (if at_dir t = 1 then i > at_to t else i < at_to t)
           in if done then
                (let a = clearAbTimer a;
                     a = a\<lparr>abPlaying := False\<rparr>;
                     a = a\<lparr>abFrame := at_to t\<rparr>;
                     a = a\<lparr>abDoneLog := abDoneLog a @ [h]\<rparr>
                 in runAbDone (at_onDone t) a)
              else a\<lparr>abFrame := i\<rparr>))"

definition openAddressBook :: "ab_state \<Rightarrow> ab_state" where
  "openAddressBook a =
     (if addressBookOpen a \<or> abPlaying a then a
      else playAbAnim 1 AB_ANIM_LAST_FRAME DoneOpen (a\<lparr>addressBookOpen := True, abPhase := ph_opening\<rparr>))"

definition closeAddressBook :: "ab_state \<Rightarrow> ab_state" where
  "closeAddressBook a =
     (if \<not> addressBookOpen a then a
      else
        (let a = (if abTimerRef a \<noteq> None then (clearAbTimer a)\<lparr>abPlaying := False\<rparr> else a);
             a = a\<lparr>abPhase := ph_closing\<rparr>;
             from = min (max (abFrame a) 1) AB_ANIM_LAST_FRAME
         in playAbAnim from 1 DoneClose a))"

text \<open>\<open>n\<close> firings of the interval \<open>h\<close> in a row.\<close>

fun abTicks :: "nat \<Rightarrow> nat \<Rightarrow> ab_state \<Rightarrow> ab_state" where
  "abTicks 0 h a = a"
| "abTicks (Suc n) h a = abTicks n h (abTick h a)"

text \<open>
  At most one interval is live, it is the one \<open>abTimerRef\<close> names, and no handle of the
  state is beyond the last one given out.
\<close>

definition ab_timers_ok :: "ab_state \<Rightarrow> bool" where
  "ab_timers_ok a \<longleftrightarrow>
     list_all (\<lambda>(k, _). abTimerRef a = Some k \<and> k \<le> abNextTimer a) (abTimers a)
     \<and> length (abTimers a) \<le> 1
     \<and> list_all (\<lambda>k. k \<le> abNextTimer a) (abDoneLog a)"

text \<open>
  The animator while the interval of a play started in \<open>a\<close> is live with its counter at
  \<open>i\<close>, and after that play has completed, before its \<open>onDone\<close> runs.
\<close>

definition playing_at :: "int \<Rightarrow> int \<Rightarrow> ab_done \<Rightarrow> int \<Rightarrow> ab_state \<Rightarrow> ab_state" where
  "playing_at i to onDone dir a =
     a\<lparr>abFrame := i, abPlaying := True,
       abTimers := [(Suc (abNextTimer a), \<lparr>at_i = i, at_dir = dir, at_to = to, at_onDone = onDone\<rparr>)],
       abTimerRef := Some (Suc (abNextTimer a))\<rparr>"

definition finished :: "int \<Rightarrow> ab_state \<Rightarrow> ab_state" where
  "finished to a =
     a\<lparr>abFrame := to, abPlaying := False, abTimers := [], abTimerRef := None,
       abNextTimer := Suc (abNextTimer a), abDoneLog := abDoneLog a @ [Suc (abNextTimer a)]\<rparr>"

section \<open>The call orchestrator: operations\<close>

definition emit :: "call \<Rightarrow> state \<Rightarrow> state" where
  "emit c s = s\<lparr>trace := trace s @ [c]\<rparr>"

subsection \<open>State setters\<close>

definition setDialed :: "(jstring \<Rightarrow> jstring) \<Rightarrow> state \<Rightarrow> state" where
  "setDialed f s = emit (SetState ''dialed'') (s\<lparr>dialed := f (dialed s)\<rparr>)"

definition setConnectedNumber :: "jstring option \<Rightarrow> state \<Rightarrow> state" where
  "setConnectedNumber v s = emit (SetState ''connectedNumber'') (s\<lparr>connectedNumber := v\<rparr>)"

definition setHistory :: "(ChatMsg list \<Rightarrow> ChatMsg list) \<Rightarrow> state \<Rightarrow> state" where
  "setHistory f s = emit (SetState ''history'') (s\<lparr>history := f (history s)\<rparr>)"

definition setSpeaking :: "bool \<Rightarrow> state \<Rightarrow> state" where
  "setSpeaking v s = emit (SetState ''speaking'') (s\<lparr>speaking := v\<rparr>)"

definition setTtsPlaying :: "bool \<Rightarrow> state \<Rightarrow> state" where
  "setTtsPlaying v s = emit (SetState ''ttsPlaying'') (s\<lparr>ttsPlaying := v\<rparr>)"

definition setChatStatus :: "ChatStatus \<Rightarrow> state \<Rightarrow> state" where
  "setChatStatus v s = emit (SetState ''chatStatus'') (s\<lparr>chatStatus := v\<rparr>)"

definition setInput :: "jstring \<Rightarrow> state \<Rightarrow> state" where
  "setInput v s = emit (SetState ''input'') (s\<lparr>input := v\<rparr>)"

definition setDialModalOpen :: "bool \<Rightarrow> state \<Rightarrow> state" where
  "setDialModalOpen v s = emit (SetState ''dialModalOpen'') (s\<lparr>dialModalOpen := v\<rparr>)"

definition setDialAnimFrame :: "int \<Rightarrow> state \<Rightarrow> state" where
  "setDialAnimFrame v s = emit (SetState ''dialAnimFrame'') (s\<lparr>dialAnimFrame := v\<rparr>)"

definition setDialAnimPlaying :: "bool \<Rightarrow> state \<Rightarrow> state" where
  "setDialAnimPlaying v s = emit (SetState ''dialAnimPlaying'') (s\<lparr>dialAnimPlaying := v\<rparr>)"

text \<open>\<open>if (connectedNumber)\<close>: neither \<open>null\<close> nor the empty string.\<close>

definition connected :: "state \<Rightarrow> bool" where
  "connected s \<longleftrightarrow> (case connectedNumber s of None \<Rightarrow> False | Some n \<Rightarrow> n \<noteq> [])"

subsection \<open>Tones, ringback and the audio element\<close>

text \<open>\<open>playDtmf\<close>; the dial pad passes one of its twelve keys.\<close>

definition playDtmf :: "jstring \<Rightarrow> state \<Rightarrow> state" where
  "playDtmf k s =
     (case dtmf k of
        None \<Rightarrow> s
      | Some (lo, hi) \<Rightarrow> emit (Beep hi 90) (emit (Beep lo 90) s))"

definition stopRingtone :: "state \<Rightarrow> state" where
  "stopRingtone s =
     (let s = emit StopRingtone s
      in s\<lparr>ringPatternTimerRef := False, ringOscRef := False,
           ringCtxRef := map_option (\<lambda>_. ctx_suspended) (ringCtxRef s)\<rparr>)"

definition startRingtone :: "state \<Rightarrow> state" where
  "startRingtone s =
     (let s = emit StartRingtone s;
          s = s\<lparr>ringCtxRef := Some (case ringCtxRef s of None \<Rightarrow> ctx_running | Some c \<Rightarrow> c)\<rparr>
      in if ringPatternTimerRef s then s
         else s\<lparr>ringOscRef := True, ringCtxRef := Some ctx_running, ringPatternTimerRef := True\<rparr>)"

text \<open>\<open>stopTts\<close>: without an audio element it returns before \<open>setTtsPlaying(false)\<close>.\<close>

definition stopTts :: "state \<Rightarrow> state" where
  "stopTts s =
     (let s = emit StopTts s
      in case audioRef s of
           None \<Rightarrow> s
         | Some au \<Rightarrow>
             setTtsPlaying False (s\<lparr>audioRef := Some (au\<lparr>au_playing := False, au_currentTime := 0\<rparr>)\<rparr>))"

subsection \<open>The dial animation\<close>

definition stopDialAnim :: "state \<Rightarrow> state" where
  "stopDialAnim s =
     (let s = emit StopDialAnim s;
          s = s\<lparr>dialAnimTimerRef := None\<rparr>;
          s = setDialAnimPlaying False s
      in setDialAnimFrame 1 s)"

definition playDialAnimOnce :: "dial_done \<Rightarrow> state \<Rightarrow> state" where
  "playDialAnimOnce onDone s =
     (let s = s\<lparr>dialAnimTimerRef := None\<rparr>;
          s = setDialAnimFrame 1 s;
          s = setDialAnimPlaying True s
      in s\<lparr>dialAnimTimerRef := Some \<lparr>dt_i = 1, dt_onDone = onDone\<rparr>\<rparr>)"

definition dialAnimTick :: "state \<Rightarrow> state" where
  "dialAnimTick s =
     (case dialAnimTimerRef s of
        None \<Rightarrow> s
      | Some t \<Rightarrow>
          (let i = dt_i t + 1 in
           if i > DIAL_ANIM_LAST_FRAME then
             (let s = s\<lparr>dialAnimTimerRef := None\<rparr>;
                  s = setDialAnimPlaying False s
              in case dt_onDone t of
                   FocusMobileDial \<Rightarrow> s
                 | OpenDialModal \<Rightarrow> setDialModalOpen True s)
           else setDialAnimFrame i (s\<lparr>dialAnimTimerRef := Some (t\<lparr>dt_i := i\<rparr>)\<rparr>)))"

subsection \<open>Speaking: \<open>playTts\<close> inside the caller's \<open>try ... finally\<close>\<close>

text \<open>The \<open>finally\<close> block of \<open>generateGreeting\<close>, and the one of \<open>sendText\<close> when \<open>chat\<close> holds.\<close>

definition speak_finally :: "bool \<Rightarrow> state \<Rightarrow> state" where
  "speak_finally chat s =
     (let s = setSpeaking False s
      in if chat then setChatStatus ready s else s)"

text \<open>
  \<open>playTts(text, number, { onStart })\<close> from its call to the first \<open>await\<close>, where the
  request to \<open>/api/tts\<close> has been issued and the call is suspended as task \<open>nextTask s\<close>; an
  early \<open>return\<close> runs the caller's \<open>finally\<close>. The body sends \<open>number || undefined\<close>.
\<close>

definition playTts :: "bool \<Rightarrow> jstring \<Rightarrow> jstring \<Rightarrow> jstring \<Rightarrow> state \<Rightarrow> state" where
  "playTts chat ident txt num s =
     (if txt = [] then speak_finally chat s
      else if audioRef s = None then speak_finally chat s
      else
        (let s = stopTts s;
             t = nextTask s;
             s = emit (FetchTts t txt (if num = [] then None else Some num)) s
         in s\<lparr>tasks := (tasks s)(t \<mapsto> Tts chat ident txt TtsFetching), nextTask := Suc t\<rparr>))"

text \<open>
  The request settled: \<open>ok\<close> is \<open>t.ok\<close> with the blob read. Without an audio element the
  assignment to \<open>audioRef.current.src\<close> throws. Otherwise the blob is loaded, which ends what
  the element was playing, and \<open>play()\<close> is called.
\<close>

definition onTtsResponse :: "nat \<Rightarrow> bool \<Rightarrow> state \<Rightarrow> state" where
  "onTtsResponse t ok s =
     (case tasks s t of
        Some (Tts chat ident txt TtsFetching) \<Rightarrow>
          (if \<not> ok then speak_finally chat (s\<lparr>tasks := (tasks s)(t := None)\<rparr>)
           else
             (case audioRef s of
                None \<Rightarrow> speak_finally chat (s\<lparr>tasks := (tasks s)(t := None)\<rparr>)
              | Some au \<Rightarrow>
                  emit (AudioPlay t)
                    (s\<lparr>audioRef := Some (au\<lparr>au_playing := False, au_currentTime := 0, au_src := Some txt\<rparr>),
                       tasks := (tasks s)(t \<mapsto> Tts chat ident txt TtsStarting)\<rparr>)))
      | _ \<Rightarrow> s)"

text \<open>The request or the reading of the blob was rejected: \<open>playTts\<close> throws.\<close>

definition onTtsFailed :: "nat \<Rightarrow> state \<Rightarrow> state" where
  "onTtsFailed t s =
     (case tasks s t of
        Some (Tts chat ident txt TtsFetching) \<Rightarrow> speak_finally chat (s\<lparr>tasks := (tasks s)(t := None)\<rparr>)
      | _ \<Rightarrow> s)"

text \<open>
  The promise of \<open>play()\<close> resolved: \<open>setTtsPlaying(true)\<close>, then \<open>onStart\<close>, then the end of
  \<open>playTts\<close> and the caller's \<open>finally\<close>.
\<close>

definition onPlayStarted :: "nat \<Rightarrow> state \<Rightarrow> state" where
  "onPlayStarted t s =
     (case tasks s t of
        Some (Tts chat ident txt TtsStarting) \<Rightarrow>
          (let s = s\<lparr>tasks := (tasks s)(t := None),
                     audioRef := map_option (\<lambda>au. au\<lparr>au_playing := True\<rparr>) (audioRef s)\<rparr>;
               s = setTtsPlaying True s;
               s = emit (OnStart t) s;
               s = setHistory (map (reveal ident txt)) s
           in speak_finally chat s)
      | _ \<Rightarrow> s)"

definition onPlayRejected :: "nat \<Rightarrow> state \<Rightarrow> state" where
  "onPlayRejected t s =
     (case tasks s t of
        Some (Tts chat ident txt TtsStarting) \<Rightarrow> speak_finally chat (s\<lparr>tasks := (tasks s)(t := None)\<rparr>)
      | _ \<Rightarrow> s)"

text \<open>The handlers \<open>onended\<close> and \<open>onpause\<close> of the audio element.\<close>

definition onAudioEnded :: "state \<Rightarrow> state" where
  "onAudioEnded s =
     setTtsPlaying False (s\<lparr>audioRef := map_option (\<lambda>au. au\<lparr>au_playing := False\<rparr>) (audioRef s)\<rparr>)"

definition onAudioPaused :: "state \<Rightarrow> state" where
  "onAudioPaused s = setTtsPlaying False s"

subsection \<open>The greeting\<close>

text \<open>
  \<open>ac.abort()\<close> on the controller of greeting task \<open>a\<close>. A \<open>fetch\<close> that has not produced its
  response rejects, and so do \<open>greetP\<close> and \<open>Promise.all\<close>: the call of \<open>generateGreeting\<close> ends
  there. While \<open>r.json()\<close> is reading, it is that promise which rejects; its \<open>catch\<close> turns the
  rejection into \<open>{}\<close> and \<open>greetP\<close> resolves with the empty string.
\<close>

definition abort_tasks :: "nat \<Rightarrow> (nat \<rightharpoonup> task) \<Rightarrow> (nat \<rightharpoonup> task)" where
  "abort_tasks a ts =
     (case ts a of
        Some (Greeting n anim Headers) \<Rightarrow> ts(a := None)
      | Some (Greeting n anim Body) \<Rightarrow> ts(a \<mapsto> Greeting n anim (Settled []))
      | _ \<Rightarrow> ts)"

definition abortFetch :: "nat \<Rightarrow> state \<Rightarrow> state" where
  "abortFetch a s = (emit (AbortFetch a) s)\<lparr>tasks := abort_tasks a (tasks s)\<rparr>"

text \<open>\<open>if (greetingAbortRef.current) greetingAbortRef.current.abort()\<close>\<close>

definition abortGreeting :: "state \<Rightarrow> state" where
  "abortGreeting s = (case greetingAbortRef s of None \<Rightarrow> s | Some a \<Rightarrow> abortFetch a s)"

text \<open>
  \<open>generateGreeting(number, { waitForDialAnimDone })\<close> up to \<open>await Promise.all\<close>. The first
  \<open>tick\<close> of \<open>waitForDialAnimToFinish()\<close> runs at once and reads \<open>dialAnimPlayingRef\<close>;
  \<open>minMs\<close> is 0. The call is suspended as task \<open>nextTask s\<close>, which also names its controller.
\<close>

definition generateGreeting :: "jstring \<Rightarrow> bool \<Rightarrow> state \<Rightarrow> state" where
  "generateGreeting num waitForDialAnimDone s =
     (let s = abortGreeting s;
          a = nextTask s;
          s = s\<lparr>greetingAbortRef := Some a, nextTask := Suc a\<rparr>;
          s = startRingtone s;
          animDone = (if waitForDialAnimDone then \<not> dialAnimPlayingRef s else True);
          s = emit (FetchChat a num greeting_prompt) s
      in s\<lparr>tasks := (tasks s)(a \<mapsto> Greeting num animDone Headers)\<rparr>)"

text \<open>
  \<open>generateGreeting\<close> after \<open>Promise.all\<close> resolved with \<open>greeting\<close>, up to the \<open>await\<close>
  inside \<open>playTts\<close>.
\<close>

definition greetingJoined :: "entropy \<Rightarrow> nat \<Rightarrow> jstring \<Rightarrow> jstring \<Rightarrow> state \<Rightarrow> state" where
  "greetingJoined e a num greeting s =
     (let s = stopRingtone (s\<lparr>tasks := (tasks s)(a := None)\<rparr>)
      in if greeting = [] then s
         else
           (let ident = fresh_id ''a:'' e;
                s = setHistory (append_msg (placeholder_msg ident e)) s;
                s = setSpeaking True s
            in playTts False ident greeting num s))"

text \<open>The response of \<open>/api/chat\<close> arrived for greeting task \<open>a\<close>: \<open>r.json()\<close> starts.\<close>

definition onGreetingResponse :: "nat \<Rightarrow> state \<Rightarrow> state" where
  "onGreetingResponse a s =
     (case tasks s a of
        Some (Greeting n anim Headers) \<Rightarrow> s\<lparr>tasks := (tasks s)(a \<mapsto> Greeting n anim Body)\<rparr>
      | _ \<Rightarrow> s)"

text \<open>
  \<open>r.json()\<close> settled; \<open>raw\<close> is \<open>data?.text || ''\<close>, empty also when parsing failed.
  \<open>greetP\<close> resolves with \<open>String(raw).trim()\<close>.
\<close>

definition onGreetingBody :: "entropy \<Rightarrow> nat \<Rightarrow> jstring \<Rightarrow> state \<Rightarrow> state" where
  "onGreetingBody e a raw s =
     (case tasks s a of
        Some (Greeting n anim Body) \<Rightarrow>
          (if anim then greetingJoined e a n (trim raw) s
           else s\<lparr>tasks := (tasks s)(a \<mapsto> Greeting n anim (Settled (trim raw)))\<rparr>)
      | _ \<Rightarrow> s)"

text \<open>
  The network failed under greeting task \<open>a\<close>: a pending \<open>fetch\<close> rejects and nothing
  catches it before the \<open>catch\<close> at the call in \<open>connectFromDial\<close>; a pending \<open>r.json()\<close>
  rejects into its own \<open>catch\<close>.
\<close>

definition onGreetingFailed :: "entropy \<Rightarrow> nat \<Rightarrow> state \<Rightarrow> state" where
  "onGreetingFailed e a s =
     (case tasks s a of
        Some (Greeting n anim Headers) \<Rightarrow> s\<lparr>tasks := (tasks s)(a := None)\<rparr>
      | Some (Greeting n anim Body) \<Rightarrow>
          (if anim then greetingJoined e a n [] s
           else s\<lparr>tasks := (tasks s)(a \<mapsto> Greeting n anim (Settled []))\<rparr>)
      | _ \<Rightarrow> s)"

text \<open>
  A later \<open>tick\<close> of \<open>waitForDialAnimToFinish\<close> for greeting task \<open>a\<close>, run by
  \<open>setTimeout(tick, 50)\<close>: it resolves \<open>animDoneP\<close> or schedules itself again.
\<close>

definition onAnimPoll :: "entropy \<Rightarrow> nat \<Rightarrow> state \<Rightarrow> state" where
  "onAnimPoll e a s =
     (case tasks s a of
        Some (Greeting n False st) \<Rightarrow>
          (if dialAnimPlayingRef s then s
           else
             (case st of
                Settled g \<Rightarrow> greetingJoined e a n g s
              | _ \<Rightarrow> s\<lparr>tasks := (tasks s)(a \<mapsto> Greeting n True st)\<rparr>))
      | _ \<Rightarrow> s)"

text \<open>
  The continuation that an \<open>abort()\<close> made ready runs once the handler that aborted has
  returned.
\<close>

definition resumeAborted :: "entropy \<Rightarrow> nat option \<Rightarrow> state \<Rightarrow> state" where
  "resumeAborted e r s =
     (case r of
        None \<Rightarrow> s
      | Some a \<Rightarrow>
          (case tasks s a of
             Some (Greeting n True (Settled g)) \<Rightarrow> greetingJoined e a n g s
           | _ \<Rightarrow> s))"

subsection \<open>Hanging up, dialling, keys\<close>

definition hangup :: "state \<Rightarrow> state" where
  "hangup s =
     (let s = abortGreeting s;
          s = s\<lparr>greetingAbortRef := None\<rparr>;
          s = stopRingtone s;
          s = stopTts s;
          s = setConnectedNumber None s;
          s = setDialed (\<lambda>_. []) s;
          s = setInput [] s;
          s = setHistory (\<lambda>_. []) s;
          s = setDialModalOpen False s
      in stopDialAnim s)"

text \<open>\<open>(d || '').replace(/\D/g, '').slice(0, 11)\<close>\<close>

definition dial_number :: "jstring \<Rightarrow> jstring" where
  "dial_number d = take 11 (filter is_digit d)"

definition connectFromDial :: "jstring \<Rightarrow> bool \<Rightarrow> state \<Rightarrow> state" where
  "connectFromDial d waitForDialAnimDone s =
     (let num = dial_number d in
      if num = [] then s
      else
        (case find (\<lambda>r. number r = num) (routes s) of
           None \<Rightarrow> s
         | Some match \<Rightarrow>
             (let s = s\<lparr>dialAnimTimerRef := None\<rparr>;
                  s = setDialAnimPlaying False s;
                  s = setConnectedNumber (Some num) s;
                  s = setDialModalOpen False s;
                  s = setDialAnimFrame DIAL_ANIM_LAST_FRAME s
              in generateGreeting num waitForDialAnimDone s)))"

text \<open>\<open>/^[0-9]$/.test(k)\<close>\<close>

definition single_digit :: "jstring \<Rightarrow> bool" where
  "single_digit k \<longleftrightarrow> (case k of [c] \<Rightarrow> is_digit c | _ \<Rightarrow> False)"

definition onKey :: "jstring \<Rightarrow> state \<Rightarrow> state" where
  "onKey k s =
     (let s = playDtmf k s in
      if k = js ''*'' then hangup s
      else if k = js ''#'' then connectFromDial (dialed s) False s
      else if \<not> single_digit k then s
      else setDialed (\<lambda>d. take 11 (d @ k)) s)"

definition backspace :: "state \<Rightarrow> state" where
  "backspace s = setDialed (\<lambda>d. take (length d - 1) d) s"

definition clearDial :: "state \<Rightarrow> state" where
  "clearDial s = setDialed (\<lambda>_. []) s"

definition dialNow :: "state \<Rightarrow> state" where
  "dialNow s = connectFromDial (dialed s) False s"

text \<open>The \<open>onClose\<close> of the dial pad.\<close>

definition closeDialModal :: "state \<Rightarrow> state" where
  "closeDialModal s =
     (let s' = setDialModalOpen False s
      in if \<not> connected s then stopDialAnim s' else s')"

text \<open>The \<open>onClick\<close> of the phone frame, once the assets are loaded.\<close>

definition frameClick :: "state \<Rightarrow> state" where
  "frameClick s =
     (if isMobile s then
        (if dialAnimPlaying s then s
         else if connected s then setDialAnimFrame DIAL_ANIM_LAST_FRAME s
         else playDialAnimOnce FocusMobileDial s)
      else if dialModalOpen s then s
      else if connected s then setDialModalOpen True (setDialAnimFrame DIAL_ANIM_LAST_FRAME s)
      else if dialAnimPlaying s then s
      else playDialAnimOnce OpenDialModal s)"

text \<open>The \<open>onClick\<close> of the address-book row of the route with number \<open>n\<close>.\<close>

definition addressBookSelect :: "jstring \<Rightarrow> state \<Rightarrow> state" where
  "addressBookSelect n s =
     (if n \<notin> set (map number (routes s)) then s
      else
        (let s = setDialed (\<lambda>_. n) s;
             s = connectFromDial n True s
         in s\<lparr>ab := closeAddressBook (ab s)\<rparr>))"

subsection \<open>Sending a message\<close>

text \<open>\<open>sendText(userTextRaw)\<close> up to \<open>await fetch\<close>, where it is suspended as task \<open>nextTask s\<close>.\<close>

definition sendText :: "entropy \<Rightarrow> jstring \<Rightarrow> state \<Rightarrow> state" where
  "sendText e userTextRaw s =
     (case connectedNumber s of
        None \<Rightarrow> s
      | Some num \<Rightarrow>
          (if num = [] then s
           else
             (let userText = trim userTextRaw in
              if userText = [] then s
              else
                (let s = setChatStatus submitted s;
                     s = setHistory (append_msg (user_msg e userText)) s;
                     t = nextTask s;
                     s = emit (FetchChat t num userText) s
                 in s\<lparr>tasks := (tasks s)(t \<mapsto> Chat num), nextTask := Suc t\<rparr>))))"

text \<open>The \<open>onSend\<close> given to the chat panel: \<open>setInput('')\<close>, then \<open>sendText(text)\<close>.\<close>

definition send :: "entropy \<Rightarrow> jstring \<Rightarrow> state \<Rightarrow> state" where
  "send e txt s = sendText e txt (setInput [] s)"

text \<open>
  The request of \<open>sendText\<close> task \<open>t\<close> settled; \<open>txt\<close> is \<open>data?.text || ''\<close>, empty also
  when parsing failed. The rest of \<open>sendText\<close> up to the \<open>await\<close> inside \<open>playTts\<close>.
\<close>

definition onChatReply :: "entropy \<Rightarrow> nat \<Rightarrow> jstring \<Rightarrow> state \<Rightarrow> state" where
  "onChatReply e t txt s =
     (case tasks s t of
        Some (Chat num) \<Rightarrow>
          (let s = s\<lparr>tasks := (tasks s)(t := None)\<rparr> in
           if txt = [] then setChatStatus ready s
           else
             (let ident = fresh_id ''a:'' e;
                  s = setHistory (append_msg (placeholder_msg ident e)) s;
                  s = stopRingtone s;
                  s = setSpeaking True s
              in playTts True ident txt num s))
      | _ \<Rightarrow> s)"

text \<open>The \<open>fetch\<close> of \<open>sendText\<close> task \<open>t\<close> rejected: \<open>sendText\<close> throws at its \<open>await\<close>.\<close>

definition onChatFailed :: "nat \<Rightarrow> state \<Rightarrow> state" where
  "onChatFailed t s =
     (case tasks s t of
        Some (Chat num) \<Rightarrow> s\<lparr>tasks := (tasks s)(t := None)\<rparr>
      | _ \<Rightarrow> s)"

subsection \<open>Events\<close>

datatype event =
    Key jstring
  | Backspace
  | ClearDial
  | DialNow
  | CloseDialModal
  | FrameClick
  | DialAnimTick
  | OpenAddressBook
  | CloseAddressBook
  | AbTick nat
  | AddressBookSelect jstring
  | Hangup
  | Send jstring
  | StopTtsClick
  | GreetingResponse nat
  | GreetingBody nat jstring
  | GreetingFailed nat
  | AnimPoll nat
  | ChatReply nat jstring
  | ChatFailed nat
  | TtsResponse nat bool
  | TtsFailed nat
  | PlayStarted nat
  | PlayRejected nat
  | AudioEnded
  | AudioPaused

definition handle :: "entropy \<Rightarrow> event \<Rightarrow> state \<Rightarrow> state" where
  "handle e ev s =
     (case ev of
        Key k \<Rightarrow> resumeAborted e (greetingAbortRef s) (onKey k s)
      | Backspace \<Rightarrow> backspace s
      | ClearDial \<Rightarrow> clearDial s
      | DialNow \<Rightarrow> resumeAborted e (greetingAbortRef s) (dialNow s)
      | CloseDialModal \<Rightarrow> closeDialModal s
      | FrameClick \<Rightarrow> frameClick s
      | DialAnimTick \<Rightarrow> dialAnimTick s
      | OpenAddressBook \<Rightarrow> s\<lparr>ab := openAddressBook (ab s)\<rparr>
      | CloseAddressBook \<Rightarrow> s\<lparr>ab := closeAddressBook (ab s)\<rparr>
      | AbTick h \<Rightarrow> s\<lparr>ab := abTick h (ab s)\<rparr>
      | AddressBookSelect n \<Rightarrow> resumeAborted e (greetingAbortRef s) (addressBookSelect n s)
      | Hangup \<Rightarrow> resumeAborted e (greetingAbortRef s) (hangup s)
      | Send txt \<Rightarrow> send e txt s
      | StopTtsClick \<Rightarrow> stopTts s
      | GreetingResponse a \<Rightarrow> onGreetingResponse a s
      | GreetingBody a raw \<Rightarrow> onGreetingBody e a raw s
      | GreetingFailed a \<Rightarrow> onGreetingFailed e a s
      | AnimPoll a \<Rightarrow> onAnimPoll e a s
      | ChatReply t txt \<Rightarrow> onChatReply e t txt s
      | ChatFailed t \<Rightarrow> onChatFailed t s
      | TtsResponse t ok \<Rightarrow> onTtsResponse t ok s
      | TtsFailed t \<Rightarrow> onTtsFailed t s
      | PlayStarted t \<Rightarrow> onPlayStarted t s
      | PlayRejected t \<Rightarrow> onPlayRejected t s
      | AudioEnded \<Rightarrow> onAudioEnded s
      | AudioPaused \<Rightarrow> onAudioPaused s)"

text \<open>
  One event: its handler, then the effect that copies \<open>dialAnimPlaying\<close> into
  \<open>dialAnimPlayingRef\<close> after the render. Two other effects of a render are not part of a
  step: the one that holds the last frame of the dial animation when the pad is opened
  during a call, which only calls \<open>setDialAnimFrame\<close>, and the one that connects on a mobile
  screen as soon as the digits match a route, which only calls \<open>setConnectedNumber\<close>.
\<close>

definition step :: "entropy \<Rightarrow> event \<Rightarrow> state \<Rightarrow> state" where
  "step e ev s = (let s = handle e ev s in s\<lparr>dialAnimPlayingRef := dialAnimPlaying s\<rparr>)"

fun run :: "(entropy \<times> event) list \<Rightarrow> state \<Rightarrow> state" where
  "run [] s = s"
| "run ((e, ev) # evs) s = run evs (step e ev s)"

subsection \<open>Predicates on runs\<close>

text \<open>The events of the greeting call \<open>a\<close>, and those that settle its \<open>greetP\<close>.\<close>

fun flow_event :: "nat \<Rightarrow> event \<Rightarrow> bool" where
  "flow_event a (GreetingResponse b) = (b = a)"
| "flow_event a (GreetingBody b raw) = (b = a)"
| "flow_event a (GreetingFailed b) = (b = a)"
| "flow_event a (AnimPoll b) = (b = a)"
| "flow_event a _ = False"


text \<open>
  While the greeting call \<open>a\<close> waits in \<open>Promise.all\<close>, ringback is on, \<open>animDoneP\<close> is
  resolved only if \<open>A\<close> and \<open>greetP\<close> only if \<open>G\<close>; once the call is over, ringback is on
  unless \<open>G\<close> and \<open>A\<close>.
\<close>

definition join_inv :: "nat \<Rightarrow> bool \<Rightarrow> bool \<Rightarrow> state \<Rightarrow> bool" where
  "join_inv a G A s \<longleftrightarrow>
     a < nextTask s \<and>
     (case tasks s a of
        None \<Rightarrow> ringPatternTimerRef s \<or> (G \<and> A)
      | Some (Greeting n anim st) \<Rightarrow>
          ringPatternTimerRef s \<and> (\<not> anim \<or> A) \<and> (case st of Settled g \<Rightarrow> G | _ \<Rightarrow> True)
      | Some _ \<Rightarrow> False)"




text \<open>Task \<open>a\<close> has been given out and is a greeting call, pending or over.\<close>

definition greeting_slot :: "nat \<Rightarrow> state \<Rightarrow> bool" where
  "greeting_slot a s \<longleftrightarrow>
     a < nextTask s \<and>
     (case tasks s a of None \<Rightarrow> True | Some (Greeting n anim st) \<Rightarrow> True | Some _ \<Rightarrow> False)"

text \<open>
  What the handler of an event outside greeting call \<open>a\<close> does to that call: the call is
  over afterwards, or as it was, or, when \<open>aborted\<close> holds, the read of its body has been
  ended by \<open>abort()\<close>; task identifiers are not taken back.
\<close>

definition tame :: "bool \<Rightarrow> nat \<Rightarrow> state \<Rightarrow> state \<Rightarrow> bool" where
  "tame aborted a s s' \<longleftrightarrow>
     nextTask s \<le> nextTask s' \<and>
     (tasks s' a = None \<or> tasks s' a = tasks s a
      \<or> (aborted \<and> (case tasks s a of
                  Some (Greeting n anim Body) \<Rightarrow> tasks s' a = Some (Greeting n anim (Settled []))
                | _ \<Rightarrow> False)))"

text \<open>
  Every assistant message with identifier \<open>i\<close> is still a pending placeholder.
\<close>

definition unrevealed :: "jstring \<Rightarrow> ChatMsg list \<Rightarrow> bool" where
  "unrevealed i h \<longleftrightarrow>
     list_all (\<lambda>m. msg_id m \<noteq> i \<or> role m \<noteq> assistant
                 \<or> (pending m = Some True \<and> msg_text m = placeholder_text)) h"

text \<open>
  The ways a transcript changes without a reveal: it is kept, emptied, or a user message
  or a pending placeholder is appended, to it or to the emptied one.
\<close>

definition quiet :: "ChatMsg list \<Rightarrow> ChatMsg list \<Rightarrow> bool" where
  "quiet h h' \<longleftrightarrow>
     h' = h \<or> h' = []
     \<or> (\<exists>m. (role m = user \<or> (pending m = Some True \<and> msg_text m = placeholder_text))
            \<and> (h' = append_msg m h \<or> h' = append_msg m []))"

text \<open>
  Task \<open>t\<close> has been given out, and its \<open>onStart\<close> has run at most once, not at all while
  the task is pending.
\<close>

definition once_inv :: "nat \<Rightarrow> state \<Rightarrow> bool" where
  "once_inv t s \<longleftrightarrow>
     t < nextTask s \<and> count_list (trace s) (OnStart t) \<le> (if tasks s t = None then 1 else 0)"

subsection \<open>The state after mounting\<close>

definition initial_ab :: ab_state where
  "initial_ab =
     \<lparr> addressBookOpen = False, abFrame = 1, abPlaying = False, abPhase = ph_opening,
       abTimerRef = None, abTimers = [], abNextTimer = 0, abDoneLog = [] \<rparr>"

text \<open>The values of the \<open>useState\<close> and \<open>useRef\<close> calls, with the audio element mounted.\<close>

definition initial :: "RouteConfig list \<Rightarrow> state" where
  "initial rs =
     \<lparr> dialed = [], connectedNumber = None, routes = rs, history = [], speaking = False,
       ttsPlaying = False, chatStatus = ready, input = [], isMobile = False,
       dialModalOpen = False, dialAnimFrame = 1, dialAnimPlaying = False,
       dialAnimTimerRef = None, dialAnimPlayingRef = False,
       audioRef = Some \<lparr> au_playing = False, au_currentTime = 0, au_src = None \<rparr>,
       ringCtxRef = None, ringOscRef = False, ringPatternTimerRef = False,
       greetingAbortRef = None, ab = initial_ab, tasks = Map.empty, nextTask = 0, trace = [] \<rparr>"

text \<open>The route of the end-to-end example: \<open>18005551212\<close> is Plutus.\<close>

definition plutus :: RouteConfig where
  "plutus =
     \<lparr> number = js ''18005551212'', label = js ''Plutus'', provider = ollama, model = js ''llama3'',
       voiceId = None, baseUrl = None, apiKey = None, agentId = None, avatarUrl = None \<rparr>"

definition entropy0 :: entropy where
  "entropy0 = \<lparr> now_id = 17, rnd = js ''8f3a'', now_t = 18 \<rparr>"

definition hermes :: RouteConfig where
  "hermes =
     \<lparr> number = js ''2'', label = js ''Hermes'', provider = ollama, model = js ''llama3'',
       voiceId = None, baseUrl = None, apiKey = None, agentId = None, avatarUrl = None \<rparr>"

text \<open>Plutus has just been dialled from the pad: ringback, and the greeting request in flight.\<close>

definition ringing_call :: state where
  "ringing_call = connectFromDial (js ''18005551212'') False (initial [plutus, hermes])"


text \<open>
  A call to Plutus: the hooks after Plutus was picked in the address book and the greeting
  ``Hello'' arrived, was synthesised and started to play.
\<close>

definition in_call :: state where
  "in_call = (initial [plutus, hermes])\<lparr>
      dialed := js ''18005551212'',
      connectedNumber := Some (js ''18005551212''),
      history := [\<lparr> msg_id = js ''a:17:8f3a'', role = assistant, msg_text = js ''Hello'',
                    msg_t = 18, pending = Some False \<rparr>],
      ttsPlaying := True,
      dialAnimFrame := 120,
      audioRef := Some \<lparr> au_playing = True, au_currentTime = 0, au_src = Some (js ''Hello'') \<rparr>,
      ringCtxRef := Some ctx_suspended,
      greetingAbortRef := Some 0,
      nextTask := 2\<rparr>"

text \<open>
  The same call one step earlier: the synthesised greeting is loaded, \<open>play()\<close> has been
  called and its promise is pending, the transcript shows the placeholder.
\<close>

definition awaiting_audio :: state where
  "awaiting_audio = (initial [plutus, hermes])\<lparr>
      dialed := js ''18005551212'',
      connectedNumber := Some (js ''18005551212''),
      history := [placeholder_msg (js ''a:17:8f3a'') entropy0],
      speaking := True,
      dialAnimFrame := 120,
      audioRef := Some \<lparr> au_playing = False, au_currentTime = 0, au_src = Some (js ''Hello'') \<rparr>,
      ringCtxRef := Some ctx_suspended,
      greetingAbortRef := Some 0,
      tasks := [1 \<mapsto> Tts False (js ''a:17:8f3a'') (js ''Hello'') TtsStarting],
      nextTask := 2\<rparr>"

text \<open>The call to Plutus after the user sent ``hi'': the chat request is in flight.\<close>

definition awaiting_reply :: state where
  "awaiting_reply = in_call\<lparr>
      history := history in_call @ [user_msg entropy0 (js ''hi'')],
      chatStatus := submitted,
      tasks := [2 \<mapsto> Chat (js ''18005551212'')],
      nextTask := 3\<rparr>"

text \<open>
  No call: the hooks after a click on the phone frame, the 120 ticks of the dial animation
  (which opens the dial pad at its end) and the keys 1 and 2.
\<close>

definition pad_open :: state where
  "pad_open = (initial [plutus, hermes])\<lparr>dialed := js ''12'', dialModalOpen := True, dialAnimFrame := 120\<rparr>"

subsection \<open>Examples\<close>

text \<open>What \<open>normalizeRoutes\<close> pushes for an entry \<open>x\<close> that it keeps.\<close>

definition kept :: "raw_route \<Rightarrow> RouteConfig" where
  "kept x = (normalizeRoute x)\<lparr>label :=
     (case raw_label x of None \<Rightarrow> trim (nullish (raw_number x))
      | Some l \<Rightarrow> if l = [] then trim (nullish (raw_number x)) else l)\<rparr>"

definition example_raw_routes :: "raw_route list" where
  "example_raw_routes =
     [\<lparr> raw_number = Some (js '' 1 ''), raw_label = None, raw_provider = Some (js ''openclaw''),
        raw_model = Some (js ''m''), raw_voiceId = None, raw_baseUrl = None, raw_apiKey = None,
        raw_agentId = None, raw_avatarUrl = None \<rparr>,
      \<lparr> raw_number = Some (js ''1''), raw_label = Some (js ''dup''), raw_provider = None,
        raw_model = Some (js ''x''), raw_voiceId = None, raw_baseUrl = None, raw_apiKey = None,
        raw_agentId = None, raw_avatarUrl = None \<rparr>,
      \<lparr> raw_number = Some (js ''22''), raw_label = Some [], raw_provider = None,
        raw_model = Some (js ''q''), raw_voiceId = None, raw_baseUrl = None, raw_apiKey = None,
        raw_agentId = None, raw_avatarUrl = None \<rparr>,
      \<lparr> raw_number = Some (js ''2x''), raw_label = None, raw_provider = None,
        raw_model = Some (js ''q''), raw_voiceId = None, raw_baseUrl = None, raw_apiKey = None,
        raw_agentId = None, raw_avatarUrl = None \<rparr>]"

text \<open>One hundred user messages, numbered by their time stamps.\<close>

definition hundred_msgs :: "ChatMsg list" where
  "hundred_msgs = map (\<lambda>k. user_msg \<lparr> now_id = k, rnd = [], now_t = k \<rparr> (js ''m'')) [0..<100]"

section \<open>Route normalisation\<close>

lemma dropWhile_rev_dropWhile_fixed:
  "dropWhile P (rev (dropWhile P (rev (dropWhile P s)))) = rev (dropWhile P (rev (dropWhile P s)))"
proof -
  define a where "a = dropWhile P s"
  define b where "b = dropWhile P (rev a)"
  have "dropWhile P (rev b) = rev b"
  proof (cases "b = []")
    case True
    then show ?thesis by simp
  next
    case False
    obtain ys where ys: "rev a = ys @ b"
      unfolding b_def by (metis takeWhile_dropWhile_id)
    from False ys have an: "a \<noteq> []" by auto
    from ys False have "last (rev a) = last b" by simp
    with an have "hd a = last b" by (simp add: last_rev)
    moreover from an have "\<not> P (hd a)" unfolding a_def by (metis hd_dropWhile)
    ultimately have "\<not> P (last b)" by simp
    with False have "\<not> P (hd (rev b))" by (simp add: hd_rev)
    with False show ?thesis by (cases "rev b") auto
  qed
  then show ?thesis unfolding a_def b_def .
qed

lemma trim_idem: "trim (trim s) = trim s"
  unfolding trim_def by (simp add: dropWhile_rev_dropWhile_fixed)

lemma normalizeRoute_retrim:
  "normalizeRoute (r\<lparr>raw_number := Some (trim (nullish (raw_number r)))\<rparr>) = normalizeRoute r"
  by (simp add: normalizeRoute_def nullish_def trim_idem Let_def)

lemma number_normalizeRoute: "number (normalizeRoute r) = trim (nullish (raw_number r))"
  by (simp add: normalizeRoute_def Let_def)

lemma digits_nonempty: "digits_1_11 s \<Longrightarrow> s \<noteq> []"
  by (auto simp: digits_1_11_def)

lemma label_fix:
  "trim (nullish (raw_number x)) \<noteq> [] \<Longrightarrow>
   (if label (normalizeRoute x) = [] then (normalizeRoute x)\<lparr>label := trim (nullish (raw_number x))\<rparr>
    else normalizeRoute x) = kept x"
  by (cases "raw_label x") (auto simp: kept_def normalizeRoute_def Let_def)

lemma loop_member:
  "r \<in> set (normalizeRoutes_loop rs seen out) \<Longrightarrow>
   r \<in> set out \<or>
   (number r \<notin> seen \<and> digits_1_11 (number r) \<and> model r \<noteq> [] \<and>
    (\<exists>x. find (\<lambda>y. trim (nullish (raw_number y)) = number r) rs = Some x \<and> r = kept x))"
proof (induction rs arbitrary: seen out)
  case Nil
  then show ?case by simp
next
  case (Cons a rs)
  let ?k = "trim (nullish (raw_number a))"
  show ?case
  proof (cases "digits_1_11 ?k \<and> ?k \<notin> seen")
    case False
    with Cons.prems have "r \<in> set (normalizeRoutes_loop rs seen out)"
      by (cases "digits_1_11 ?k") (simp_all add: Let_def)
    from Cons.IH[OF this] False show ?thesis by auto
  next
    case True
    then have kne: "?k \<noteq> []" by (simp add: digits_nonempty)
    show ?thesis
    proof (cases "model (normalizeRoute a) = []")
      case True
      with \<open>digits_1_11 ?k \<and> ?k \<notin> seen\<close> Cons.prems
      have "r \<in> set (normalizeRoutes_loop rs (insert ?k seen) out)"
        by (simp add: Let_def normalizeRoute_retrim)
      from Cons.IH[OF this] show ?thesis by auto
    next
      case False
      with \<open>digits_1_11 ?k \<and> ?k \<notin> seen\<close> Cons.prems
      have "r \<in> set (normalizeRoutes_loop rs (insert ?k seen) (out @ [kept a]))"
        by (simp add: Let_def normalizeRoute_retrim label_fix[OF kne])
      from Cons.IH[OF this] have
        "r \<in> set out \<or> r = kept a \<or>
          (number r \<notin> insert ?k seen \<and> digits_1_11 (number r) \<and> model r \<noteq> [] \<and>
           (\<exists>x. find (\<lambda>y. trim (nullish (raw_number y)) = number r) rs = Some x \<and> r = kept x))"
        by auto
      moreover have "number (kept a) = ?k" "model (kept a) = model (normalizeRoute a)"
        by (simp_all add: kept_def number_normalizeRoute)
      ultimately show ?thesis using \<open>digits_1_11 ?k \<and> ?k \<notin> seen\<close> False by auto
    qed
  qed
qed

lemma loop_distinct:
  "distinct (map number out) \<Longrightarrow> number ` set out \<subseteq> seen \<Longrightarrow>
   distinct (map number (normalizeRoutes_loop rs seen out))"
proof (induction rs arbitrary: seen out)
  case Nil
  then show ?case by simp
next
  case (Cons a rs)
  let ?k = "trim (nullish (raw_number a))"
  let ?nr = "normalizeRoute (a\<lparr>raw_number := Some ?k\<rparr>)"
  have nk: "number ?nr = ?k" by (simp add: normalizeRoute_retrim number_normalizeRoute)
  have sub: "number ` set out \<subseteq> insert ?k seen" using Cons.prems by auto
  have d2: "?k \<notin> seen \<Longrightarrow>
     distinct (map number (out @ [if label ?nr = [] then ?nr\<lparr>label := ?k\<rparr> else ?nr]))"
    using Cons.prems nk by auto
  have s2: "number ` set (out @ [if label ?nr = [] then ?nr\<lparr>label := ?k\<rparr> else ?nr]) \<subseteq> insert ?k seen"
    using Cons.prems nk by auto
  show ?case
    using Cons.IH[OF Cons.prems] Cons.IH[OF Cons.prems(1) sub] Cons.IH[OF d2 s2]
    by (simp add: Let_def)
qed

lemma distinct_filter_le1:
  "distinct (map f xs) \<Longrightarrow> length (filter (\<lambda>r. f r = n) xs) \<le> 1"
proof (induction xs)
  case Nil
  then show ?case by simp
next
  case (Cons a xs)
  then have "f a = n \<Longrightarrow> filter (\<lambda>r. f r = n) xs = []"
    by (auto simp: filter_empty_conv image_iff)
  with Cons show ?case by auto
qed

lemma label_kept_nonempty: "trim (nullish (raw_number x)) \<noteq> [] \<Longrightarrow> label (kept x) \<noteq> []"
  by (auto simp: kept_def split: option.splits)

text \<open>
  Claim C10. Whatever list of route configurations \<open>normalizeRoutes\<close> is given, every route
  of its result has a number of one to eleven decimal digits, a non-empty model and a
  non-empty label; it is the normalisation of the first entry of the input with that
  (trimmed) number, its label being the number when the entry has no label or an empty one.
  The numbers of the result are pairwise distinct, so a number selects at most one route,
  and \<open>getRoute\<close> returns the only route with that number.
\<close>

theorem normalizeRoutes_invariant:
  "(\<forall>r \<in> set (normalizeRoutes rs).
      digits_1_11 (number r) \<and> model r \<noteq> [] \<and> label r \<noteq> [] \<and>
      (\<exists>x. find (\<lambda>y. trim (nullish (raw_number y)) = number r) rs = Some x \<and>
           r = (normalizeRoute x)\<lparr>label :=
                 (case raw_label x of None \<Rightarrow> number r
                  | Some l \<Rightarrow> if l = [] then number r else l)\<rparr>))
   \<and> distinct (map number (normalizeRoutes rs))
   \<and> (\<forall>n. length (filter (\<lambda>r. number r = n) (normalizeRoutes rs)) \<le> 1)
   \<and> (\<forall>n r. getRoute (normalizeRoutes rs) n = Some r \<longrightarrow>
         r \<in> set (normalizeRoutes rs) \<and> number r = n \<and>
         (\<forall>r' \<in> set (normalizeRoutes rs). number r' = n \<longrightarrow> r' = r))"
proof -
  have d: "distinct (map number (normalizeRoutes rs))"
    unfolding normalizeRoutes_def by (rule loop_distinct) simp_all
  have m: "digits_1_11 (number r) \<and> model r \<noteq> [] \<and> label r \<noteq> [] \<and>
      (\<exists>x. find (\<lambda>y. trim (nullish (raw_number y)) = number r) rs = Some x \<and>
           r = (normalizeRoute x)\<lparr>label :=
                 (case raw_label x of None \<Rightarrow> number r
                  | Some l \<Rightarrow> if l = [] then number r else l)\<rparr>)"
    if "r \<in> set (normalizeRoutes rs)" for r
  proof -
    from that loop_member[of r rs "{}" "[]"]
    obtain x where x: "digits_1_11 (number r)" "model r \<noteq> []"
        "find (\<lambda>y. trim (nullish (raw_number y)) = number r) rs = Some x" "r = kept x"
      unfolding normalizeRoutes_def by auto
    from x(3) have k: "trim (nullish (raw_number x)) = number r"
      by (auto simp: find_Some_iff)
    with x(1) have "label (kept x) \<noteq> []"
      by (intro label_kept_nonempty) (simp add: digits_nonempty)
    with x(4) have l: "label r \<noteq> []" by simp
    have "kept x = (normalizeRoute x)\<lparr>label :=
                 (case raw_label x of None \<Rightarrow> number r
                  | Some l \<Rightarrow> if l = [] then number r else l)\<rparr>"
      using k by (cases "raw_label x") (simp_all add: kept_def)
    with x(4) have e: "r = (normalizeRoute x)\<lparr>label :=
                 (case raw_label x of None \<Rightarrow> number r
                  | Some l \<Rightarrow> if l = [] then number r else l)\<rparr>"
      by simp
    show ?thesis using x(1,2,3) l e by blast
  qed
  have u: "r' = r" if "r \<in> set (normalizeRoutes rs)" "r' \<in> set (normalizeRoutes rs)"
     "number r' = number r" for r r'
    using d that by (meson distinct_map inj_onD)
  have g: "r \<in> set (normalizeRoutes rs) \<and> number r = n"
    if "getRoute (normalizeRoutes rs) n = Some r" for n r
    using that unfolding getRoute_def by (auto simp: find_Some_iff)
  show ?thesis
    using d m u g distinct_filter_le1[OF d] by blast
qed

theorem normalizeRoutes_invariant_witness:
  "map number (normalizeRoutes example_raw_routes) = [js ''1'', js ''22'']
   \<and> map label (normalizeRoutes example_raw_routes) = [js ''1'', js ''22'']
   \<and> digits_1_11 (number (hd (normalizeRoutes example_raw_routes)))
   \<and> model (hd (normalizeRoutes example_raw_routes)) \<noteq> []
   \<and> label (hd (normalizeRoutes example_raw_routes)) \<noteq> []
   \<and> distinct (map number (normalizeRoutes example_raw_routes))
   \<and> getRoute (normalizeRoutes example_raw_routes) (js ''1'')
       = Some (hd (normalizeRoutes example_raw_routes))"
proof -
  have e: "map number (normalizeRoutes example_raw_routes) = [js ''1'', js ''22'']
      \<and> map label (normalizeRoutes example_raw_routes) = [js ''1'', js ''22'']
      \<and> getRoute (normalizeRoutes example_raw_routes) (js ''1'')
          = Some (hd (normalizeRoutes example_raw_routes))"
    by (simp add: example_raw_routes_def normalizeRoutes_def normalizeRoute_def getRoute_def
        trim_def is_ws_def js_def digits_1_11_def is_digit_def nullish_def
        trimmed_or_undefined_def Let_def)
  then have "normalizeRoutes example_raw_routes \<noteq> []" by auto
  then have m: "hd (normalizeRoutes example_raw_routes) \<in> set (normalizeRoutes example_raw_routes)"
    by simp
  from normalizeRoutes_invariant [of example_raw_routes] m
  have "digits_1_11 (number (hd (normalizeRoutes example_raw_routes)))
     \<and> model (hd (normalizeRoutes example_raw_routes)) \<noteq> []
     \<and> label (hd (normalizeRoutes example_raw_routes)) \<noteq> []
     \<and> distinct (map number (normalizeRoutes example_raw_routes))"
    by blast
  with e show ?thesis by blast
qed

section \<open>The operations as record updates\<close>

text \<open>
  Each operation that branches inside is restated as one update of the state, the branch
  moved into the fields; the proofs below rewrite with these forms.
\<close>

lemmas setter_defs = emit_def setDialed_def setConnectedNumber_def setHistory_def setSpeaking_def
  setTtsPlaying_def setChatStatus_def setInput_def setDialModalOpen_def setDialAnimFrame_def
  setDialAnimPlaying_def

lemma stopRingtone_upd:
  "stopRingtone s = s\<lparr>ringPatternTimerRef := False, ringOscRef := False,
      ringCtxRef := map_option (\<lambda>_. ctx_suspended) (ringCtxRef s),
      trace := trace s @ [StopRingtone]\<rparr>"
  by (simp add: stopRingtone_def emit_def)

lemma startRingtone_upd:
  "startRingtone s = s\<lparr>
      ringCtxRef := Some (if ringPatternTimerRef s
                          then (case ringCtxRef s of None \<Rightarrow> ctx_running | Some c \<Rightarrow> c)
                          else ctx_running),
      ringOscRef := (if ringPatternTimerRef s then ringOscRef s else True),
      ringPatternTimerRef := True,
      trace := trace s @ [StartRingtone]\<rparr>"
  by (simp add: startRingtone_def emit_def Let_def)

lemma stopTts_upd:
  "stopTts s = s\<lparr>audioRef := map_option (\<lambda>au. au\<lparr>au_playing := False, au_currentTime := 0\<rparr>) (audioRef s),
      ttsPlaying := (if audioRef s = None then ttsPlaying s else False),
      trace := trace s @ StopTts # (if audioRef s = None then [] else [SetState ''ttsPlaying''])\<rparr>"
  by (cases "audioRef s") (simp_all add: stopTts_def setter_defs)

lemma abortGreeting_upd:
  "abortGreeting s = s\<lparr>
      tasks := (case greetingAbortRef s of None \<Rightarrow> tasks s | Some a \<Rightarrow> abort_tasks a (tasks s)),
      trace := trace s @ (case greetingAbortRef s of None \<Rightarrow> [] | Some a \<Rightarrow> [AbortFetch a])\<rparr>"
  by (cases "greetingAbortRef s") (simp_all add: abortGreeting_def abortFetch_def emit_def)

lemma stopDialAnim_upd:
  "stopDialAnim s = s\<lparr>dialAnimTimerRef := None, dialAnimPlaying := False, dialAnimFrame := 1,
      trace := trace s @ [StopDialAnim, SetState ''dialAnimPlaying'', SetState ''dialAnimFrame'']\<rparr>"
  by (simp add: stopDialAnim_def setter_defs)

lemma playDtmf_upd:
  "playDtmf k s = s\<lparr>trace := trace s @
      (case dtmf k of None \<Rightarrow> [] | Some (lo, hi) \<Rightarrow> [Beep lo 90, Beep hi 90])\<rparr>"
  by (cases "dtmf k") (auto simp: playDtmf_def emit_def)

lemmas upd_forms = stopRingtone_upd startRingtone_upd stopTts_upd abortGreeting_upd
  stopDialAnim_upd playDtmf_upd

lemma hangup_upd:
  "hangup s = s\<lparr>
      dialed := [], connectedNumber := None, history := [], input := [],
      ttsPlaying := (if audioRef s = None then ttsPlaying s else False),
      dialModalOpen := False, dialAnimFrame := 1, dialAnimPlaying := False,
      dialAnimTimerRef := None,
      audioRef := map_option (\<lambda>au. au\<lparr>au_playing := False, au_currentTime := 0\<rparr>) (audioRef s),
      ringCtxRef := map_option (\<lambda>_. ctx_suspended) (ringCtxRef s),
      ringOscRef := False, ringPatternTimerRef := False, greetingAbortRef := None,
      tasks := (case greetingAbortRef s of None \<Rightarrow> tasks s | Some a \<Rightarrow> abort_tasks a (tasks s)),
      trace := trace s
         @ (case greetingAbortRef s of None \<Rightarrow> [] | Some a \<Rightarrow> [AbortFetch a])
         @ [StopRingtone, StopTts]
         @ (if audioRef s = None then [] else [SetState ''ttsPlaying''])
         @ [SetState ''connectedNumber'', SetState ''dialed'', SetState ''input'',
            SetState ''history'', SetState ''dialModalOpen'', StopDialAnim,
            SetState ''dialAnimPlaying'', SetState ''dialAnimFrame'']\<rparr>"
  by (simp add: hangup_def upd_forms setter_defs Let_def)

lemma generateGreeting_upd:
  "generateGreeting num w s = s\<lparr>
      greetingAbortRef := Some (nextTask s),
      nextTask := Suc (nextTask s),
      ringCtxRef := Some (if ringPatternTimerRef s
                          then (case ringCtxRef s of None \<Rightarrow> ctx_running | Some c \<Rightarrow> c)
                          else ctx_running),
      ringOscRef := (if ringPatternTimerRef s then ringOscRef s else True),
      ringPatternTimerRef := True,
      tasks := (case greetingAbortRef s of None \<Rightarrow> tasks s | Some a \<Rightarrow> abort_tasks a (tasks s))
                (nextTask s \<mapsto> Greeting num (if w then \<not> dialAnimPlayingRef s else True) Headers),
      trace := trace s @ (case greetingAbortRef s of None \<Rightarrow> [] | Some a \<Rightarrow> [AbortFetch a])
                 @ [StartRingtone, FetchChat (nextTask s) num greeting_prompt]\<rparr>"
  by (simp add: generateGreeting_def upd_forms emit_def Let_def)

lemma connectFromDial_upd:
  "dial_number d \<noteq> [] \<Longrightarrow> find (\<lambda>r. number r = dial_number d) (routes s) = Some r \<Longrightarrow>
   connectFromDial d w s = s\<lparr>
      connectedNumber := Some (dial_number d),
      dialModalOpen := False,
      dialAnimFrame := DIAL_ANIM_LAST_FRAME,
      dialAnimPlaying := False,
      dialAnimTimerRef := None,
      greetingAbortRef := Some (nextTask s),
      nextTask := Suc (nextTask s),
      ringCtxRef := Some (if ringPatternTimerRef s
                          then (case ringCtxRef s of None \<Rightarrow> ctx_running | Some c \<Rightarrow> c)
                          else ctx_running),
      ringOscRef := (if ringPatternTimerRef s then ringOscRef s else True),
      ringPatternTimerRef := True,
      tasks := (case greetingAbortRef s of None \<Rightarrow> tasks s | Some a \<Rightarrow> abort_tasks a (tasks s))
                (nextTask s \<mapsto> Greeting (dial_number d) (if w then \<not> dialAnimPlayingRef s else True) Headers),
      trace := trace s
                 @ [SetState ''dialAnimPlaying'', SetState ''connectedNumber'',
                    SetState ''dialModalOpen'', SetState ''dialAnimFrame'']
                 @ (case greetingAbortRef s of None \<Rightarrow> [] | Some a \<Rightarrow> [AbortFetch a])
                 @ [StartRingtone, FetchChat (nextTask s) (dial_number d) greeting_prompt]\<rparr>"
  by (simp add: connectFromDial_def generateGreeting_upd setter_defs Let_def cong: if_cong option.case_cong)


lemma speak_finally_upd:
  "speak_finally chat s = s\<lparr>speaking := False,
      chatStatus := (if chat then ready else chatStatus s),
      trace := trace s @ SetState ''speaking'' # (if chat then [SetState ''chatStatus''] else [])\<rparr>"
  by (simp add: speak_finally_def setter_defs Let_def)

lemmas upds = upd_forms speak_finally_upd setter_defs abortFetch_def Let_def

section \<open>Sends that do nothing\<close>

lemma trim_all_ws: "list_all is_ws txt \<Longrightarrow> trim txt = []"
  by (auto simp: trim_def list_all_iff dest: set_dropWhileD)

text \<open>
  Claim C9. When no number is connected (\<open>connectedNumber\<close> is \<open>null\<close> or empty), or when
  the text is empty or consists of white space only, \<open>sendText\<close> returns the state it was
  given: the transcript and the chat status are unchanged, no request is issued and no
  call of \<open>sendText\<close> is left suspended.
\<close>

theorem sendText_noop:
  "connectedNumber s = None \<or> connectedNumber s = Some [] \<or> list_all is_ws txt \<Longrightarrow>
   sendText e txt s = s"
  by (auto simp: sendText_def trim_all_ws Let_def split: option.splits)

theorem sendText_noop_witness:
  "sendText entropy0 (js ''hello'') pad_open = pad_open
   \<and> sendText entropy0 [32, 9, 10, 160, 8232] in_call = in_call
   \<and> sendText entropy0 [] in_call = in_call"
proof -
  have a: "connectedNumber pad_open = None" by (simp add: pad_open_def initial_def)
  have b: "list_all is_ws [32, 9, 10, 160, 8232]" by (simp add: is_ws_def)
  have c: "list_all is_ws []" by simp
  show ?thesis
    using sendText_noop [of pad_open "js ''hello''" entropy0]
      sendText_noop [of in_call "[32, 9, 10, 160, 8232]" entropy0]
      sendText_noop [of in_call "[]" entropy0] a b c
    by simp
qed

section \<open>Hanging up\<close>

text \<open>
  Claim C6. \<open>hangup\<close> is a total function of the state. A second \<open>hangup\<close> changes nothing
  but the log of calls. The log of one \<open>hangup\<close> is, in this order: the abort of the
  registered greeting fetch, \<open>stopRingtone\<close>, \<open>stopTts\<close>, the four setters that clear the
  connected number, the dial buffer, the input and the transcript, and the reset of the dial
  animation (\<open>setDialModalOpen(false)\<close>, \<open>stopDialAnim\<close>). Afterwards no number is
  connected, dial buffer, input and transcript are empty, the registered greeting call no
  longer waits for its request, ringback is off, the audio element is paused at position 0
  and the dial animation is at frame 1 with no timer.
\<close>

theorem hangup_idempotent:
  "hangup (hangup s) = (hangup s)\<lparr>trace := trace (hangup (hangup s))\<rparr>
   \<and> trace (hangup s) = trace s
         @ (case greetingAbortRef s of None \<Rightarrow> [] | Some a \<Rightarrow> [AbortFetch a])
         @ [StopRingtone, StopTts]
         @ (if audioRef s = None then [] else [SetState ''ttsPlaying''])
         @ [SetState ''connectedNumber'', SetState ''dialed'', SetState ''input'',
            SetState ''history'', SetState ''dialModalOpen'', StopDialAnim,
            SetState ''dialAnimPlaying'', SetState ''dialAnimFrame'']
   \<and> connectedNumber (hangup s) = None
   \<and> dialed (hangup s) = []
   \<and> history (hangup s) = []
   \<and> input (hangup s) = []
   \<and> greetingAbortRef (hangup s) = None
   \<and> (\<forall>a n anim. greetingAbortRef s = Some a \<longrightarrow>
         tasks (hangup s) a \<noteq> Some (Greeting n anim Headers)
         \<and> tasks (hangup s) a \<noteq> Some (Greeting n anim Body))
   \<and> \<not> ringPatternTimerRef (hangup s)
   \<and> \<not> ringOscRef (hangup s)
   \<and> map_option au_playing (audioRef (hangup s)) = map_option (\<lambda>_. False) (audioRef s)
   \<and> map_option au_currentTime (audioRef (hangup s)) = map_option (\<lambda>_. 0) (audioRef s)
   \<and> (audioRef s \<noteq> None \<longrightarrow> \<not> ttsPlaying (hangup s))
   \<and> \<not> dialModalOpen (hangup s)
   \<and> dialAnimFrame (hangup s) = 1
   \<and> \<not> dialAnimPlaying (hangup s)
   \<and> dialAnimTimerRef (hangup s) = None"
proof -
  have t: "tasks (hangup s) a \<noteq> Some (Greeting n anim Headers)
         \<and> tasks (hangup s) a \<noteq> Some (Greeting n anim Body)"
    if "greetingAbortRef s = Some a" for a n anim
    using that
    by (simp add: hangup_upd abort_tasks_def split: option.splits task.splits fetch_stage.splits)
  have i: "hangup (hangup s) = (hangup s)\<lparr>trace := trace (hangup (hangup s))\<rparr>"
    by (simp add: hangup_upd option.map_comp comp_def)
  have r: "trace (hangup s) = trace s
         @ (case greetingAbortRef s of None \<Rightarrow> [] | Some a \<Rightarrow> [AbortFetch a])
         @ [StopRingtone, StopTts]
         @ (if audioRef s = None then [] else [SetState ''ttsPlaying''])
         @ [SetState ''connectedNumber'', SetState ''dialed'', SetState ''input'',
            SetState ''history'', SetState ''dialModalOpen'', StopDialAnim,
            SetState ''dialAnimPlaying'', SetState ''dialAnimFrame'']"
    by (simp add: hangup_upd)
  have f: "connectedNumber (hangup s) = None \<and> dialed (hangup s) = [] \<and> history (hangup s) = []
     \<and> input (hangup s) = [] \<and> greetingAbortRef (hangup s) = None
     \<and> \<not> ringPatternTimerRef (hangup s) \<and> \<not> ringOscRef (hangup s)
     \<and> map_option au_playing (audioRef (hangup s)) = map_option (\<lambda>_. False) (audioRef s)
     \<and> map_option au_currentTime (audioRef (hangup s)) = map_option (\<lambda>_. 0) (audioRef s)
     \<and> (audioRef s \<noteq> None \<longrightarrow> \<not> ttsPlaying (hangup s))
     \<and> \<not> dialModalOpen (hangup s) \<and> dialAnimFrame (hangup s) = 1
     \<and> \<not> dialAnimPlaying (hangup s) \<and> dialAnimTimerRef (hangup s) = None"
    by (simp add: hangup_upd option.map_comp comp_def)
  from t i r f show ?thesis by blast
qed

lemma ringing_call_eq:
  "ringing_call = (initial [plutus, hermes])\<lparr>
      connectedNumber := Some (js ''18005551212''),
      dialAnimFrame := DIAL_ANIM_LAST_FRAME,
      greetingAbortRef := Some 0,
      nextTask := 1,
      ringCtxRef := Some ctx_running,
      ringOscRef := True,
      ringPatternTimerRef := True,
      tasks := [0 \<mapsto> Greeting (js ''18005551212'') True Headers],
      trace := [SetState ''dialAnimPlaying'', SetState ''connectedNumber'',
                SetState ''dialModalOpen'', SetState ''dialAnimFrame'',
                StartRingtone, FetchChat 0 (js ''18005551212'') greeting_prompt]\<rparr>"
proof -
  have a: "dial_number (js ''18005551212'') = js ''18005551212''"
    by (simp add: dial_number_def js_def is_digit_def)
  have b: "find (\<lambda>r. number r = dial_number (js ''18005551212'')) (routes (initial [plutus, hermes])) = Some plutus"
    unfolding a by (simp add: initial_def plutus_def)
  have c: "dial_number (js ''18005551212'') \<noteq> []" unfolding a by (simp add: js_def)
  show ?thesis
    unfolding ringing_call_def connectFromDial_upd [OF c b] a
    by (simp add: initial_def abort_tasks_def)
qed

theorem hangup_idempotent_witness:
  "greetingAbortRef ringing_call = Some 0
   \<and> tasks ringing_call 0 = Some (Greeting (js ''18005551212'') True Headers)
   \<and> ringPatternTimerRef ringing_call
   \<and> tasks (hangup ringing_call) 0 \<noteq> Some (Greeting (js ''18005551212'') True Headers)
   \<and> connectedNumber (hangup ringing_call) = None
   \<and> \<not> ringPatternTimerRef (hangup ringing_call)
   \<and> \<not> ttsPlaying (hangup ringing_call)
   \<and> hangup (hangup ringing_call) = (hangup ringing_call)\<lparr>trace := trace (hangup (hangup ringing_call))\<rparr>"
proof -
  have a: "greetingAbortRef ringing_call = Some 0
     \<and> tasks ringing_call 0 = Some (Greeting (js ''18005551212'') True Headers)
     \<and> ringPatternTimerRef ringing_call \<and> audioRef ringing_call \<noteq> None"
    by (simp add: ringing_call_eq initial_def)
  with hangup_idempotent [of ringing_call] show ?thesis by blast
qed

section \<open>The key \<open>*\<close>\<close>

lemma dtmf_star: "dtmf (js ''*'') = Some (941, 1209)"
  by (simp add: dtmf_def js_def)

text \<open>
  Claim C7, as amended. The key \<open>*\<close> hangs up in every state, after its two tones: the dial
  buffer is cleared, and so are the connected number, the input and the transcript; the
  dial pad is closed and the dial animation is reset to frame 1. The routes, the chat status
  and the speaking flag are unchanged.
\<close>

theorem star_key_hangs_up:
  "onKey (js ''*'') s = hangup (emit (Beep 1209 90) (emit (Beep 941 90) s))
   \<and> dialed (onKey (js ''*'') s) = []
   \<and> connectedNumber (onKey (js ''*'') s) = None
   \<and> input (onKey (js ''*'') s) = []
   \<and> history (onKey (js ''*'') s) = []
   \<and> \<not> dialModalOpen (onKey (js ''*'') s)
   \<and> dialAnimFrame (onKey (js ''*'') s) = 1
   \<and> \<not> dialAnimPlaying (onKey (js ''*'') s)
   \<and> routes (onKey (js ''*'') s) = routes s
   \<and> chatStatus (onKey (js ''*'') s) = chatStatus s
   \<and> speaking (onKey (js ''*'') s) = speaking s"
proof -
  have k: "onKey (js ''*'') s = hangup (emit (Beep 1209 90) (emit (Beep 941 90) s))"
    by (simp add: onKey_def playDtmf_def dtmf_star Let_def)
  show ?thesis unfolding k by (simp add: hangup_upd emit_def)
qed

text \<open>
  The claim as stated fails: with no call connected and the dial pad open on the last frame
  of the animation, \<open>*\<close> closes the pad and puts the animation back to frame 1.
\<close>

theorem star_key_idle_counterexample:
  "connectedNumber pad_open = None
   \<and> dialModalOpen pad_open
   \<and> \<not> dialModalOpen (onKey (js ''*'') pad_open)
   \<and> dialAnimFrame pad_open = 120
   \<and> dialAnimFrame (onKey (js ''*'') pad_open) = 1"
proof -
  have k: "onKey (js ''*'') pad_open = hangup (emit (Beep 1209 90) (emit (Beep 941 90) pad_open))"
    by (simp add: onKey_def playDtmf_def dtmf_star Let_def)
  show ?thesis unfolding k by (simp add: hangup_upd emit_def pad_open_def initial_def)
qed

section \<open>Dialling during a call\<close>

text \<open>
  Claim C1, as amended. A successful dial (the digits of the argument are the number of a
  route) puts the new number into the one \<open>connectedNumber\<close>, aborts the registered
  greeting fetch, registers a new one, starts ringback and issues the greeting request,
  closes the dial pad and holds the dial animation on its last frame. It calls neither
  \<open>stopTts\<close> nor \<open>setHistory\<close>: the transcript, the input and the audio element are as
  they were.
\<close>

theorem connectFromDial_keeps_transcript:
  assumes "dial_number d \<noteq> []"
      and "find (\<lambda>r. number r = dial_number d) (routes s) = Some r"
  shows "connectedNumber (connectFromDial d w s) = Some (dial_number d)
     \<and> greetingAbortRef (connectFromDial d w s) = Some (nextTask s)
     \<and> tasks (connectFromDial d w s) (nextTask s)
         = Some (Greeting (dial_number d) (if w then \<not> dialAnimPlayingRef s else True) Headers)
     \<and> ringPatternTimerRef (connectFromDial d w s)
     \<and> trace (connectFromDial d w s) = trace s
           @ [SetState ''dialAnimPlaying'', SetState ''connectedNumber'',
              SetState ''dialModalOpen'', SetState ''dialAnimFrame'']
           @ (case greetingAbortRef s of None \<Rightarrow> [] | Some a \<Rightarrow> [AbortFetch a])
           @ [StartRingtone, FetchChat (nextTask s) (dial_number d) greeting_prompt]
     \<and> history (connectFromDial d w s) = history s
     \<and> input (connectFromDial d w s) = input s
     \<and> audioRef (connectFromDial d w s) = audioRef s
     \<and> ttsPlaying (connectFromDial d w s) = ttsPlaying s
     \<and> \<not> dialModalOpen (connectFromDial d w s)
     \<and> dialAnimFrame (connectFromDial d w s) = DIAL_ANIM_LAST_FRAME
     \<and> \<not> dialAnimPlaying (connectFromDial d w s)"
  by (simp add: connectFromDial_upd [OF assms])

lemma dial_two: "dial_number (js ''2'') = js ''2''"
  by (simp add: dial_number_def js_def is_digit_def)

lemma in_call_hermes: "find (\<lambda>r. number r = js ''2'') (routes in_call) = Some hermes"
  by (simp add: in_call_def initial_def plutus_def hermes_def js_def)

theorem connectFromDial_keeps_transcript_witness:
  "connectedNumber in_call = Some (js ''18005551212'')
   \<and> connectedNumber (connectFromDial (js ''2'') False in_call) = Some (js ''2'')
   \<and> history (connectFromDial (js ''2'') False in_call) = history in_call
   \<and> audioRef (connectFromDial (js ''2'') False in_call) = audioRef in_call
   \<and> ringPatternTimerRef (connectFromDial (js ''2'') False in_call)"
proof -
  have a: "dial_number (js ''2'') \<noteq> []" by (simp add: dial_number_def js_def is_digit_def)
  have b: "find (\<lambda>r. number r = dial_number (js ''2'')) (routes in_call) = Some hermes"
    by (simp add: dial_two in_call_hermes)
  have c: "connectedNumber in_call = Some (js ''18005551212'')"
    by (simp add: in_call_def initial_def)
  from connectFromDial_keeps_transcript [OF a b, of False] c show ?thesis
    by (simp add: dial_two)
qed

text \<open>
  The claim as stated fails: in a call to Plutus whose greeting is in the transcript and is
  being played, dialling Hermes connects Hermes with the transcript kept and the audio
  still playing.
\<close>

theorem new_dial_keeps_session_counterexample:
  "connectedNumber in_call = Some (js ''18005551212'')
   \<and> history in_call \<noteq> []
   \<and> map_option au_playing (audioRef in_call) = Some True
   \<and> connectedNumber (connectFromDial (js ''2'') False in_call) = Some (js ''2'')
   \<and> history (connectFromDial (js ''2'') False in_call) = history in_call
   \<and> map_option au_playing (audioRef (connectFromDial (js ''2'') False in_call)) = Some True"
proof -
  have a: "dial_number (js ''2'') \<noteq> []" by (simp add: dial_number_def js_def is_digit_def)
  have b: "find (\<lambda>r. number r = dial_number (js ''2'')) (routes in_call) = Some hermes"
    by (simp add: dial_two in_call_hermes)
  have c: "connectedNumber in_call = Some (js ''18005551212'')
     \<and> history in_call \<noteq> [] \<and> map_option au_playing (audioRef in_call) = Some True"
    by (simp add: in_call_def initial_def)
  from c show ?thesis
    by (simp add: connectFromDial_upd [OF a b] dial_two)
qed

section \<open>The transcript\<close>

subsection \<open>What each handler does to the transcript\<close>

lemma history_playTts [simp]: "history (playTts c i t n s) = history s"
  by (simp add: playTts_def upds)

lemma history_greetingJoined:
  "history (greetingJoined e a n g s) =
     (if g = [] then history s else append_msg (placeholder_msg (fresh_id ''a:'' e) e) (history s))"
  by (simp add: greetingJoined_def upds)

lemma history_hangup [simp]: "history (hangup s) = []"
  by (simp add: hangup_upd)

lemma history_connectFromDial [simp]: "history (connectFromDial d w s) = history s"
  by (simp add: connectFromDial_def generateGreeting_upd upds split: option.splits)

lemma history_onKey: "history (onKey k s) = (if k = js ''*'' then [] else history s)"
  by (simp add: onKey_def upds)

lemma history_addressBookSelect [simp]: "history (addressBookSelect n s) = history s"
  by (simp add: addressBookSelect_def upds)

lemma history_sendText:
  "history (sendText e raw s) = history s \<or>
   history (sendText e raw s) = append_msg (user_msg e (trim raw)) (history s)"
  by (simp add: sendText_def upds split: option.splits)

lemma history_onChatReply:
  "history (onChatReply e t txt s) = history s \<or>
   history (onChatReply e t txt s) = append_msg (placeholder_msg (fresh_id ''a:'' e) e) (history s)"
  by (simp add: onChatReply_def upds split: option.splits task.splits)

lemma history_onPlayStarted:
  "history (onPlayStarted t s) =
     (case tasks s t of Some (Tts c i txt TtsStarting) \<Rightarrow> map (reveal i txt) (history s)
      | _ \<Rightarrow> history s)"
  by (simp add: onPlayStarted_def upds split: option.splits task.splits tts_stage.splits)

lemma history_resumeAborted:
  "history (resumeAborted e r s) = history s \<or>
   history (resumeAborted e r s) = append_msg (placeholder_msg (fresh_id ''a:'' e) e) (history s)"
  by (simp add: resumeAborted_def history_greetingJoined
      split: option.splits task.splits fetch_stage.splits bool.splits)

lemma history_misc [simp]:
  "history (backspace s) = history s"
  "history (clearDial s) = history s"
  "history (dialNow s) = history s"
  "history (closeDialModal s) = history s"
  "history (frameClick s) = history s"
  "history (dialAnimTick s) = history s"
  "history (stopTts s) = history s"
  "history (onGreetingResponse a s) = history s"
  "history (onChatFailed t s) = history s"
  "history (onTtsResponse t ok s) = history s"
  "history (onTtsFailed t s) = history s"
  "history (onPlayRejected t s) = history s"
  "history (onAudioEnded s) = history s"
  "history (onAudioPaused s) = history s"
  by (simp_all add: backspace_def clearDial_def dialNow_def closeDialModal_def frameClick_def
      dialAnimTick_def playDialAnimOnce_def onGreetingResponse_def onChatFailed_def
      onTtsResponse_def onTtsFailed_def onPlayRejected_def onAudioEnded_def onAudioPaused_def upds
      split: option.splits task.splits fetch_stage.splits tts_stage.splits dial_done.splits)

lemma history_onGreetingBody:
  "history (onGreetingBody e a raw s) = history s \<or>
   history (onGreetingBody e a raw s) = append_msg (placeholder_msg (fresh_id ''a:'' e) e) (history s)"
  by (simp add: onGreetingBody_def history_greetingJoined
      split: option.splits task.splits fetch_stage.splits)

lemma history_onGreetingFailed [simp]:
  "history (onGreetingFailed e a s) = history s"
  by (simp add: onGreetingFailed_def history_greetingJoined
      split: option.splits task.splits fetch_stage.splits)

lemma history_onAnimPoll:
  "history (onAnimPoll e a s) = history s \<or>
   history (onAnimPoll e a s) = append_msg (placeholder_msg (fresh_id ''a:'' e) e) (history s)"
  by (simp add: onAnimPoll_def history_greetingJoined
      split: option.splits task.splits fetch_stage.splits bool.splits)

lemma length_slice_last: "length (slice_last n xs) = min n (length xs)"
  by (simp add: slice_last_def)

lemma slice_last_suffix: "\<exists>old. xs = old @ slice_last n xs"
  unfolding slice_last_def by (metis append_take_drop_id)

lemma slice_last_twice: "slice_last n (slice_last n xs @ ys) = slice_last n (xs @ ys)"
proof (cases "length xs \<le> n")
  case True
  then show ?thesis by (simp add: slice_last_def)
next
  case False
  then have "length ys + (length xs - n) = length xs + length ys - n" by arith
  with False show ?thesis by (simp add: slice_last_def)
qed

lemma slice_last_short: "length xs \<le> n \<Longrightarrow> slice_last n xs = xs"
  by (simp add: slice_last_def)

lemma length_append_msg: "length (append_msg m h) \<le> 60"
  by (simp add: append_msg_def length_slice_last)

lemma history_setHistory [simp]: "history (setHistory f s) = f (history s)"
  by (simp add: setter_defs)

lemma history_appends:
  "history (foldl (\<lambda>s m. setHistory (append_msg m) s) s ms)
     = (if ms = [] then history s else slice_last 60 (history s @ ms))"
proof (induction ms arbitrary: s)
  case Nil
  then show ?case by simp
next
  case (Cons m ms)
  show ?case
  proof (cases "ms = []")
    case True
    then show ?thesis by (simp add: append_msg_def)
  next
    case False
    then have "history (foldl (\<lambda>s m. setHistory (append_msg m) s) (setHistory (append_msg m) s) ms)
        = slice_last 60 (history (setHistory (append_msg m) s) @ ms)"
      by (simp add: Cons.IH)
    also have "\<dots> = slice_last 60 (slice_last 60 (history s @ [m]) @ ms)"
      by (simp add: append_msg_def)
    also have "\<dots> = slice_last 60 (history s @ m # ms)"
      using slice_last_twice [of 60 "history s @ [m]" ms] by simp
    finally show ?thesis by simp
  qed
qed

lemma history_handle_cases:
  "history (handle e ev s) = history s
   \<or> history (handle e ev s) = []
   \<or> (\<exists>m h. history (handle e ev s) = append_msg m h)
   \<or> (\<exists>t c i txt. ev = PlayStarted t \<and> tasks s t = Some (Tts c i txt TtsStarting)
         \<and> history (handle e ev s) = map (reveal i txt) (history s))"
proof (cases ev)
  case (Key k)
  then show ?thesis
    using history_resumeAborted [of e "greetingAbortRef s" "onKey k s"]
    by (auto simp: handle_def history_onKey)
next
  case DialNow
  then show ?thesis
    using history_resumeAborted [of e "greetingAbortRef s" "dialNow s"]
    by (auto simp: handle_def)
next
  case (AddressBookSelect n)
  then show ?thesis
    using history_resumeAborted [of e "greetingAbortRef s" "addressBookSelect n s"]
    by (auto simp: handle_def)
next
  case Hangup
  then show ?thesis
    using history_resumeAborted [of e "greetingAbortRef s" "hangup s"]
    by (auto simp: handle_def)
next
  case (Send raw)
  then show ?thesis
    using history_sendText [of e raw "setInput [] s"]
    by (auto simp: handle_def send_def setter_defs)
next
  case (GreetingBody a raw)
  then show ?thesis
    using history_onGreetingBody [of e a raw s] by (auto simp: handle_def)
next
  case (AnimPoll a)
  then show ?thesis
    using history_onAnimPoll [of e a s] by (auto simp: handle_def)
next
  case (ChatReply t reply)
  then show ?thesis
    using history_onChatReply [of e t reply s] by (auto simp: handle_def)
next
  case (PlayStarted t)
  then show ?thesis
    by (auto simp: handle_def history_onPlayStarted
        split: option.splits task.splits tts_stage.splits)
qed (simp_all add: handle_def)

lemma history_step: "history (step e ev s) = history (handle e ev s)"
  by (simp add: step_def Let_def)

lemma length_history_step:
  "length (history s) \<le> 60 \<Longrightarrow> length (history (step e ev s)) \<le> 60"
  using history_handle_cases [of e ev s]
  by (auto simp: length_append_msg history_step)

lemma length_history_run:
  "length (history s) \<le> 60 \<Longrightarrow> length (history (run evs s)) \<le> 60"
proof (induction evs arbitrary: s)
  case Nil
  then show ?case by simp
next
  case (Cons x evs)
  then show ?case by (cases x) (simp add: length_history_step)
qed

text \<open>
  Claim C5. Appending messages one after the other with the updater of the three call
  sites, \<open>setHistory((h) => [...h, m].slice(-60))\<close>, leaves the last 60 of the old
  transcript followed by the new messages: at most 60 entries, a suffix of that sequence,
  hence the most recent ones in their order. From an empty transcript, 100 appends leave
  the last 60 of the 100. Whatever events follow one another, a transcript of at most 60
  entries stays one.
\<close>

theorem transcript_bound:
  "history (foldl (\<lambda>s m. setHistory (append_msg m) s) s ms)
      = (if ms = [] then history s else slice_last 60 (history s @ ms))
   \<and> length (slice_last 60 (history s @ ms)) = min 60 (length (history s @ ms))
   \<and> (\<exists>old. history s @ ms = old @ slice_last 60 (history s @ ms))
   \<and> (history s = [] \<and> length ms = 100 \<longrightarrow>
         history (foldl (\<lambda>s m. setHistory (append_msg m) s) s ms) = drop 40 ms)
   \<and> (length (history s) \<le> 60 \<longrightarrow> (\<forall>evs. length (history (run evs s)) \<le> 60))"
proof -
  have "history (foldl (\<lambda>s m. setHistory (append_msg m) s) s ms) = drop 40 ms"
    if "history s = []" "length ms = 100"
  proof -
    from that have "ms \<noteq> []" by auto
    with that show ?thesis by (simp add: history_appends slice_last_def)
  qed
  then show ?thesis
    using history_appends [of s ms] length_slice_last [of 60 "history s @ ms"]
      slice_last_suffix [of "history s @ ms" 60] length_history_run [of s]
    by blast
qed

theorem transcript_bound_witness:
  "history (foldl (\<lambda>s m. setHistory (append_msg m) s) (initial [plutus]) hundred_msgs)
      = drop 40 hundred_msgs
   \<and> length (drop 40 hundred_msgs) = 60
   \<and> length (history (run [(entropy0, Send (js ''hello''))] (initial [plutus]))) \<le> 60"
proof -
  have a: "history (initial [plutus]) = []" by (simp add: initial_def)
  have b: "length hundred_msgs = 100" by (simp add: hundred_msgs_def)
  note t = transcript_bound [of "initial [plutus]" hundred_msgs]
  from t a b
  have 1: "history (foldl (\<lambda>s m. setHistory (append_msg m) s) (initial [plutus]) hundred_msgs)
      = drop 40 hundred_msgs"
    by blast
  from a have "length (history (initial [plutus])) \<le> 60" by simp
  with t have "\<forall>evs. length (history (run evs (initial [plutus]))) \<le> 60" by blast
  then have 2: "length (history (run [(entropy0, Send (js ''hello''))] (initial [plutus]))) \<le> 60"
    by blast
  from 1 2 b show ?thesis by simp
qed

section \<open>The address-book animation\<close>

lemma clearAbTimer_ok:
  "ab_timers_ok a \<Longrightarrow> clearAbTimer a = a\<lparr>abTimers := [], abTimerRef := None\<rparr>"
proof (cases "abTimers a")
  case Nil
  then show ?thesis by (cases "abTimerRef a") (simp_all add: clearAbTimer_def)
next
  case (Cons x xs)
  assume ok: "ab_timers_ok a"
  with Cons have xs: "xs = []" by (simp add: ab_timers_ok_def)
  obtain k t where x: "x = (k, t)" by (cases x)
  with ok Cons have "abTimerRef a = Some k" by (simp add: ab_timers_ok_def)
  with Cons xs x show ?thesis by (simp add: clearAbTimer_def)
qed

lemma playAbAnim_ok:
  "ab_timers_ok a \<Longrightarrow>
   playAbAnim from to cb a =
     (playing_at from to cb (if to \<ge> from then 1 else - 1) a)\<lparr>abNextTimer := Suc (abNextTimer a)\<rparr>"
  by (simp add: playAbAnim_def clearAbTimer_ok playing_at_def Let_def)

lemma abTick_down:
  "to < i \<Longrightarrow>
   abTick (Suc (abNextTimer a)) ((playing_at i to cb (- 1) a)\<lparr>abNextTimer := Suc (abNextTimer a)\<rparr>)
     = (playing_at (i - 1) to cb (- 1) a)\<lparr>abNextTimer := Suc (abNextTimer a)\<rparr>"
  by (simp add: abTick_def playing_at_def Let_def)

lemma abTicks_down:
  "int k \<le> from - to \<Longrightarrow>
   abTicks k (Suc (abNextTimer a)) ((playing_at from to cb (- 1) a)\<lparr>abNextTimer := Suc (abNextTimer a)\<rparr>)
     = (playing_at (from - int k) to cb (- 1) a)\<lparr>abNextTimer := Suc (abNextTimer a)\<rparr>"
proof (induction k arbitrary: "from")
  case 0
  then show ?case by simp
next
  case (Suc k)
  then have "to < from" "int k \<le> (from - 1) - to" by auto
  with Suc.IH [of "from - 1"] show ?case
    by (simp add: abTick_down algebra_simps)
qed

lemma abTick_last:
  "abTick (Suc (abNextTimer a)) ((playing_at to to cb (- 1) a)\<lparr>abNextTimer := Suc (abNextTimer a)\<rparr>)
     = runAbDone cb (finished to a)"
proof -
  have "abTick (Suc (abNextTimer a)) ((playing_at to to cb (- 1) a)\<lparr>abNextTimer := Suc (abNextTimer a)\<rparr>)
     = runAbDone cb (a\<lparr>abNextTimer := Suc (abNextTimer a), abTimers := [],
           abTimerRef := None, abPlaying := False, abFrame := to,
           abDoneLog := abDoneLog a @ [Suc (abNextTimer a)]\<rparr>)"
    by (simp add: abTick_def playing_at_def clearAbTimer_def Let_def)
  moreover have "a\<lparr>abNextTimer := Suc (abNextTimer a), abTimers := [],
           abTimerRef := None, abPlaying := False, abFrame := to,
           abDoneLog := abDoneLog a @ [Suc (abNextTimer a)]\<rparr> = finished to a"
    by (simp add: finished_def)
  ultimately show ?thesis by simp
qed

lemma runAbDone_timers:
  "abTimers (runAbDone cb (finished to a)) = []
   \<and> abTimerRef (runAbDone cb (finished to a)) = None
   \<and> \<not> abPlaying (runAbDone cb (finished to a))
   \<and> abDoneLog (runAbDone cb (finished to a)) = abDoneLog a @ [Suc (abNextTimer a)]
   \<and> abFrame (runAbDone cb (finished to a)) = (if cb = DoneClose then 1 else to)"
  by (cases cb) (simp_all add: runAbDone_def finished_def stopAbAnim_def clearAbTimer_def Let_def)

lemma abTicks_dead: "abTimers a = [] \<Longrightarrow> abTicks m h a = a"
  by (induction m) (simp_all add: abTick_def)

lemma abTicks_add: "abTicks (m + n) h a = abTicks n h (abTicks m h a)"
  by (induction m arbitrary: a) simp_all


lemma ok_playing_at:
  "ab_timers_ok a \<Longrightarrow> ab_timers_ok ((playing_at i to cb d a)\<lparr>abNextTimer := Suc (abNextTimer a)\<rparr>)"
  by (simp add: ab_timers_ok_def playing_at_def list_all_iff) (metis le_SucI)

lemma ok_playAbAnim: "ab_timers_ok a \<Longrightarrow> ab_timers_ok (playAbAnim from to cb a)"
  by (simp add: playAbAnim_ok ok_playing_at)

lemma ok_clearAbTimer: "ab_timers_ok a \<Longrightarrow> ab_timers_ok (clearAbTimer a)"
  by (simp add: clearAbTimer_ok) (simp add: ab_timers_ok_def)

lemma ok_stopAbAnim: "ab_timers_ok a \<Longrightarrow> ab_timers_ok (stopAbAnim r a)"
  by (simp add: stopAbAnim_def clearAbTimer_ok Let_def) (simp add: ab_timers_ok_def)

lemma ok_frame [simp]:
  "ab_timers_ok (a\<lparr>abFrame := x\<rparr>) = ab_timers_ok a"
  "ab_timers_ok (a\<lparr>abPlaying := y\<rparr>) = ab_timers_ok a"
  "ab_timers_ok (a\<lparr>abPhase := z\<rparr>) = ab_timers_ok a"
  "ab_timers_ok (a\<lparr>addressBookOpen := w\<rparr>) = ab_timers_ok a"
  by (simp_all add: ab_timers_ok_def)

lemma ok_runAbDone: "ab_timers_ok a \<Longrightarrow> ab_timers_ok (runAbDone cb a)"
  by (cases cb) (simp_all add: runAbDone_def ok_stopAbAnim)

lemma ok_openAddressBook: "ab_timers_ok a \<Longrightarrow> ab_timers_ok (openAddressBook a)"
  by (simp add: openAddressBook_def ok_playAbAnim)

lemma ok_closeAddressBook: "ab_timers_ok a \<Longrightarrow> ab_timers_ok (closeAddressBook a)"
  by (simp add: closeAddressBook_def ok_playAbAnim ok_clearAbTimer Let_def)

lemma ok_abTick: "ab_timers_ok a \<Longrightarrow> ab_timers_ok (abTick h a)"
proof (cases "map_of (abTimers a) h")
  case None
  assume "ab_timers_ok a"
  with None show ?thesis by (simp add: abTick_def)
next
  case (Some t)
  assume ok: "ab_timers_ok a"
  from Some obtain x xs where c: "abTimers a = x # xs" by (cases "abTimers a") auto
  with ok have xs: "xs = []" by (simp add: ab_timers_ok_def)
  with Some c have x: "x = (h, t)" by (cases x) (auto split: if_splits)
  let ?b = "a\<lparr>abTimers := [(h, t\<lparr>at_i := at_i t + at_dir t\<rparr>)]\<rparr>"
  from ok c xs x have okb: "ab_timers_ok ?b" by (simp add: ab_timers_ok_def)
  have d: "ab_timers_ok (runAbDone (at_onDone t)
      ((clearAbTimer ?b)\<lparr>abPlaying := False, abFrame := at_to t,
         abDoneLog := abDoneLog a @ [h]\<rparr>))"
  proof (rule ok_runAbDone)
    from ok c xs x have "h \<le> abNextTimer a" by (simp add: ab_timers_ok_def)
    with ok show "ab_timers_ok ((clearAbTimer ?b)\<lparr>abPlaying := False, abFrame := at_to t,
         abDoneLog := abDoneLog a @ [h]\<rparr>)"
      by (simp add: clearAbTimer_ok [OF okb]) (simp add: ab_timers_ok_def)
  qed
  from okb have e: "ab_timers_ok (?b\<lparr>abFrame := at_i t + at_dir t\<rparr>)" by simp
  from Some c xs x d e show ?thesis
    by (simp add: abTick_def Let_def clearAbTimer_ok [OF okb])
qed

text \<open>
  Claim C8. Let \<open>playAbAnim from to onDone\<close> with \<open>to < from\<close> start where at most one
  interval is live. It clears that interval, so that the only live interval is its own.
  The first \<open>from - to\<close> firings each lower the frame by one, from \<open>from\<close> down to \<open>to\<close>;
  the counter of the closure goes one lower at the next firing, which clears the interval,
  sets the frame to \<open>to\<close> and calls \<open>onDone\<close>. Later firings do not happen, so \<open>onDone\<close>
  has been called once (the callback of \<open>closeAddressBook\<close> then puts the frame to 1).
  Clearing, starting, stopping, opening, closing and firing all keep the number of live
  intervals at most one.
\<close>

theorem playAbAnim_reverse:
  assumes "to < from" and "ab_timers_ok a"
  shows "abTimers (playAbAnim from to cb a)
           = [(Suc (abNextTimer a), \<lparr>at_i = from, at_dir = - 1, at_to = to, at_onDone = cb\<rparr>)]
     \<and> abTimerRef (playAbAnim from to cb a) = Some (Suc (abNextTimer a))
     \<and> abFrame (playAbAnim from to cb a) = from
     \<and> ab_timers_ok (playAbAnim from to cb a)
     \<and> ab_timers_ok (abTick j a) \<and> ab_timers_ok (stopAbAnim r a)
     \<and> ab_timers_ok (openAddressBook a) \<and> ab_timers_ok (closeAddressBook a)
     \<and> (\<forall>k. int k \<le> from - to \<longrightarrow>
           abFrame (abTicks k (Suc (abNextTimer a)) (playAbAnim from to cb a)) = from - int k
           \<and> abPlaying (abTicks k (Suc (abNextTimer a)) (playAbAnim from to cb a))
           \<and> map fst (abTimers (abTicks k (Suc (abNextTimer a)) (playAbAnim from to cb a)))
               = [Suc (abNextTimer a)]
           \<and> abDoneLog (abTicks k (Suc (abNextTimer a)) (playAbAnim from to cb a)) = abDoneLog a)
     \<and> (\<forall>k. from - to < int k \<longrightarrow>
           abTicks k (Suc (abNextTimer a)) (playAbAnim from to cb a) = runAbDone cb (finished to a)
           \<and> abFrame (finished to a) = to
           \<and> abFrame (abTicks k (Suc (abNextTimer a)) (playAbAnim from to cb a))
               = (if cb = DoneClose then 1 else to)
           \<and> \<not> abPlaying (abTicks k (Suc (abNextTimer a)) (playAbAnim from to cb a))
           \<and> abTimers (abTicks k (Suc (abNextTimer a)) (playAbAnim from to cb a)) = []
           \<and> abDoneLog (abTicks k (Suc (abNextTimer a)) (playAbAnim from to cb a))
               = abDoneLog a @ [Suc (abNextTimer a)])
     \<and> (\<forall>k. count_list (abDoneLog (abTicks k (Suc (abNextTimer a)) (playAbAnim from to cb a)))
                (Suc (abNextTimer a))
             = (if from - to < int k then 1 else 0))"
proof -
  let ?h = "Suc (abNextTimer a)"
  let ?s = "playAbAnim from to cb a"
  from assms have s: "?s = (playing_at from to cb (- 1) a)\<lparr>abNextTimer := ?h\<rparr>"
    by (simp add: playAbAnim_ok)
  have run: "abTicks k ?h ?s = (playing_at (from - int k) to cb (- 1) a)\<lparr>abNextTimer := ?h\<rparr>"
    if "int k \<le> from - to" for k
    unfolding s using that by (rule abTicks_down)
  have fin: "abTicks k ?h ?s = runAbDone cb (finished to a)" if "from - to < int k" for k
  proof -
    define n where "n = nat (from - to)"
    define m where "m = k - Suc n"
    from that assms(1) have k: "k = n + (1 + m)" and n: "int n = from - to"
      by (simp_all add: n_def m_def)
    have "abTicks n ?h ?s = (playing_at to to cb (- 1) a)\<lparr>abNextTimer := ?h\<rparr>"
      using run [of n] n by simp
    moreover have "abTicks (n + 1) ?h ?s = abTicks 1 ?h (abTicks n ?h ?s)"
      by (rule abTicks_add)
    ultimately have "abTicks (n + 1) ?h ?s = runAbDone cb (finished to a)"
      by (simp add: abTick_last)
    moreover have "abTicks (n + 1 + m) ?h ?s = abTicks m ?h (abTicks (n + 1) ?h ?s)"
      by (rule abTicks_add)
    ultimately have "abTicks (n + 1 + m) ?h ?s = runAbDone cb (finished to a)"
      by (simp add: abTicks_dead runAbDone_timers)
    with k show ?thesis by (simp add: add.assoc)
  qed
  from assms(2) have fresh: "?h \<notin> set (abDoneLog a)"
    by (auto simp: ab_timers_ok_def list_all_iff)
  then have c0: "count_list (abDoneLog a) ?h = 0" by (simp add: count_list_0_iff)
  have cnt: "count_list (abDoneLog (abTicks k ?h ?s)) ?h = (if from - to < int k then 1 else 0)" for k
  proof (cases "from - to < int k")
    case True
    then show ?thesis by (simp add: fin runAbDone_timers c0)
  next
    case False
    then have "int k \<le> from - to" by simp
    then show ?thesis using False by (simp add: run playing_at_def c0)
  qed
  have a1: "abTimers ?s = [(?h, \<lparr>at_i = from, at_dir = - 1, at_to = to, at_onDone = cb\<rparr>)]
     \<and> abTimerRef ?s = Some ?h \<and> abFrame ?s = from"
    by (simp add: s playing_at_def)
  have a2: "ab_timers_ok ?s \<and> ab_timers_ok (abTick j a) \<and> ab_timers_ok (stopAbAnim r a)
     \<and> ab_timers_ok (openAddressBook a) \<and> ab_timers_ok (closeAddressBook a)"
    using assms(2) by (simp add: ok_playAbAnim ok_abTick ok_stopAbAnim ok_openAddressBook ok_closeAddressBook)
  have a3: "abFrame (abTicks k ?h ?s) = from - int k \<and> abPlaying (abTicks k ?h ?s)
      \<and> map fst (abTimers (abTicks k ?h ?s)) = [?h] \<and> abDoneLog (abTicks k ?h ?s) = abDoneLog a"
    if "int k \<le> from - to" for k
    by (simp add: run [OF that] playing_at_def)
  have a4: "abTicks k ?h ?s = runAbDone cb (finished to a)
      \<and> abFrame (finished to a) = to
      \<and> abFrame (abTicks k ?h ?s) = (if cb = DoneClose then 1 else to)
      \<and> \<not> abPlaying (abTicks k ?h ?s) \<and> abTimers (abTicks k ?h ?s) = []
      \<and> abDoneLog (abTicks k ?h ?s) = abDoneLog a @ [?h]"
    if "from - to < int k" for k
    using runAbDone_timers [of cb to a] by (simp add: fin [OF that] finished_def)
  from a1 a2 a3 a4 cnt show ?thesis by blast
qed

theorem playAbAnim_reverse_witness:
  "abFrame (playAbAnim 40 1 DoneOpen initial_ab) = 40
   \<and> abFrame (abTicks 3 1 (playAbAnim 40 1 DoneOpen initial_ab)) = 37
   \<and> abFrame (abTicks 39 1 (playAbAnim 40 1 DoneOpen initial_ab)) = 1
   \<and> abPlaying (abTicks 39 1 (playAbAnim 40 1 DoneOpen initial_ab))
   \<and> abFrame (abTicks 40 1 (playAbAnim 40 1 DoneOpen initial_ab)) = 1
   \<and> \<not> abPlaying (abTicks 40 1 (playAbAnim 40 1 DoneOpen initial_ab))
   \<and> abTimers (abTicks 40 1 (playAbAnim 40 1 DoneOpen initial_ab)) = []
   \<and> count_list (abDoneLog (abTicks 39 1 (playAbAnim 40 1 DoneOpen initial_ab))) 1 = 0
   \<and> count_list (abDoneLog (abTicks 45 1 (playAbAnim 40 1 DoneOpen initial_ab))) 1 = 1"
proof -
  let ?s = "playAbAnim 40 1 DoneOpen initial_ab"
  let ?h = "Suc (abNextTimer initial_ab)"
  have o: "ab_timers_ok initial_ab" by (simp add: ab_timers_ok_def initial_ab_def)
  have n: "?h = 1" by (simp add: initial_ab_def)
  have l: "(1::int) < 40" by simp
  note t = playAbAnim_reverse [OF l o, where cb = DoneOpen]
  from t have f: "abFrame ?s = 40" by blast
  have low: "abFrame (abTicks k ?h ?s) = 40 - int k \<and> abPlaying (abTicks k ?h ?s)"
    if "int k \<le> 40 - 1" for k
    using t that by blast
  have high: "abFrame (abTicks k ?h ?s) = (if DoneOpen = DoneClose then 1 else 1)
      \<and> \<not> abPlaying (abTicks k ?h ?s) \<and> abTimers (abTicks k ?h ?s) = []"
    if "40 - 1 < int k" for k
    using t that by blast
  from t have cnt: "count_list (abDoneLog (abTicks k ?h ?s)) ?h = (if 40 - 1 < int k then 1 else 0)" for k
    by blast
  have "abFrame (abTicks 3 ?h ?s) = 37" using low [of 3] by simp
  moreover have "abFrame (abTicks 39 ?h ?s) = 1 \<and> abPlaying (abTicks 39 ?h ?s)"
    using low [of 39] by simp
  moreover have "abFrame (abTicks 40 ?h ?s) = 1 \<and> \<not> abPlaying (abTicks 40 ?h ?s)
      \<and> abTimers (abTicks 40 ?h ?s) = []"
    using high [of 40] by simp
  moreover have "count_list (abDoneLog (abTicks 39 ?h ?s)) ?h = 0" using cnt [of 39] by simp
  moreover have "count_list (abDoneLog (abTicks 45 ?h ?s)) ?h = 1" using cnt [of 45] by simp
  ultimately show ?thesis using f unfolding n by simp
qed

section \<open>The audio-start callback\<close>

text \<open>Every handler keeps \<open>once_inv\<close>: the \<open>onStart\<close> of a speak runs when its \<open>play()\<close>
  resolves, which ends the speak.\<close>

lemma once_basic [simp]:
  "once_inv t (emit (SetState x) s) = once_inv t s"
  "once_inv t (setDialed f s) = once_inv t s"
  "once_inv t (setConnectedNumber v s) = once_inv t s"
  "once_inv t (setHistory g s) = once_inv t s"
  "once_inv t (setSpeaking b s) = once_inv t s"
  "once_inv t (setTtsPlaying b s) = once_inv t s"
  "once_inv t (setChatStatus c s) = once_inv t s"
  "once_inv t (setInput i s) = once_inv t s"
  "once_inv t (setDialModalOpen b s) = once_inv t s"
  "once_inv t (setDialAnimFrame n s) = once_inv t s"
  "once_inv t (setDialAnimPlaying b s) = once_inv t s"
  "once_inv t (stopRingtone s) = once_inv t s"
  "once_inv t (startRingtone s) = once_inv t s"
  "once_inv t (stopTts s) = once_inv t s"
  "once_inv t (stopDialAnim s) = once_inv t s"
  "once_inv t (playDtmf k s) = once_inv t s"
  "once_inv t (speak_finally chat s) = once_inv t s"
  by (simp_all add: once_inv_def upds split: option.splits prod.splits)

lemma once_fields [simp]:
  "once_inv t (s\<lparr>dialAnimTimerRef := x\<rparr>) = once_inv t s"
  "once_inv t (s\<lparr>dialAnimPlayingRef := y\<rparr>) = once_inv t s"
  "once_inv t (s\<lparr>audioRef := z\<rparr>) = once_inv t s"
  "once_inv t (s\<lparr>ab := w\<rparr>) = once_inv t s"
  "once_inv t (s\<lparr>greetingAbortRef := r\<rparr>) = once_inv t s"
  by (simp_all add: once_inv_def)

lemma once_remove: "once_inv t s \<Longrightarrow> once_inv t (s\<lparr>tasks := (tasks s)(u := None)\<rparr>)"
  by (auto simp: once_inv_def split: if_splits)

lemma once_restage:
  "once_inv t s \<Longrightarrow> tasks s u \<noteq> None \<Longrightarrow> once_inv t (s\<lparr>tasks := (tasks s)(u \<mapsto> x)\<rparr>)"
  by (auto simp: once_inv_def split: if_splits)

lemma once_alloc:
  "once_inv t s \<Longrightarrow>
   once_inv t (s\<lparr>tasks := (tasks s)(nextTask s \<mapsto> x), nextTask := Suc (nextTask s)\<rparr>)"
  by (auto simp: once_inv_def split: if_splits)

lemma once_emit: "c \<noteq> OnStart t \<Longrightarrow> once_inv t (emit c s) = once_inv t s"
  by (simp add: once_inv_def emit_def)

lemma once_abortFetch: "once_inv t s \<Longrightarrow> once_inv t (abortFetch a s)"
  by (auto simp: once_inv_def abortFetch_def emit_def abort_tasks_def
      split: option.splits task.splits fetch_stage.splits if_splits)

lemma once_abortGreeting: "once_inv t s \<Longrightarrow> once_inv t (abortGreeting s)"
  by (simp add: abortGreeting_def once_abortFetch split: option.splits)


lemma playTts_silent: "x = [] \<or> audioRef s = None \<Longrightarrow> playTts c i x n s = speak_finally c s"
  by (auto simp: playTts_def)

lemma playTts_request:
  "x \<noteq> [] \<Longrightarrow> audioRef s \<noteq> None \<Longrightarrow>
   playTts c i x n s =
     s\<lparr>audioRef := map_option (\<lambda>au. au\<lparr>au_playing := False, au_currentTime := 0\<rparr>) (audioRef s),
       ttsPlaying := False,
       tasks := (tasks s)(nextTask s \<mapsto> Tts c i x TtsFetching),
       nextTask := Suc (nextTask s),
       trace := trace s @ [StopTts, SetState ''ttsPlaying'',
                           FetchTts (nextTask s) x (if n = [] then None else Some n)]\<rparr>"
  by (cases "audioRef s") (simp_all add: playTts_def upds)

lemma once_playTts: "once_inv t s \<Longrightarrow> once_inv t (playTts c i x n s)"
proof (cases "x = [] \<or> audioRef s = None")
  case True
  assume "once_inv t s"
  then show ?thesis unfolding playTts_silent [OF True] by simp
next
  case False
  then have a: "x \<noteq> []" and b: "audioRef s \<noteq> None" by simp_all
  assume "once_inv t s"
  then show ?thesis
    unfolding playTts_request [OF a b] by (auto simp: once_inv_def split: if_splits)
qed

lemma once_greetingJoined: "once_inv t s \<Longrightarrow> once_inv t (greetingJoined e a n g s)"
  by (simp add: greetingJoined_def Let_def once_playTts once_remove)

lemma once_resumeAborted: "once_inv t s \<Longrightarrow> once_inv t (resumeAborted e r s)"
  by (simp add: resumeAborted_def once_greetingJoined
      split: option.splits task.splits fetch_stage.splits bool.splits)

lemma once_generateGreeting: "once_inv t s \<Longrightarrow> once_inv t (generateGreeting n w s)"
proof -
  assume "once_inv t s"
  then have "once_inv t (abortGreeting s)" by (rule once_abortGreeting)
  then show ?thesis
    by (auto simp: generateGreeting_def Let_def once_inv_def startRingtone_upd emit_def
        split: if_splits)
qed

lemma once_connectFromDial: "once_inv t s \<Longrightarrow> once_inv t (connectFromDial d w s)"
  by (simp add: connectFromDial_def Let_def once_generateGreeting split: option.splits)

lemma once_hangup: "once_inv t s \<Longrightarrow> once_inv t (hangup s)"
  by (simp add: hangup_def Let_def once_abortGreeting)

lemma once_onKey: "once_inv t s \<Longrightarrow> once_inv t (onKey k s)"
  by (simp add: onKey_def Let_def once_hangup once_connectFromDial)

lemma once_misc:
  assumes "once_inv t s"
  shows "once_inv t (backspace s)" "once_inv t (clearDial s)" "once_inv t (dialNow s)"
    "once_inv t (closeDialModal s)" "once_inv t (frameClick s)" "once_inv t (dialAnimTick s)"
    "once_inv t (addressBookSelect n s)" "once_inv t (onAudioEnded s)" "once_inv t (onAudioPaused s)"
  using assms
  by (simp_all add: backspace_def clearDial_def dialNow_def closeDialModal_def frameClick_def
      dialAnimTick_def playDialAnimOnce_def addressBookSelect_def onAudioEnded_def onAudioPaused_def
      once_connectFromDial Let_def split: option.splits dial_done.splits)

lemma once_sendText: "once_inv t s \<Longrightarrow> once_inv t (sendText e raw s)"
  by (auto simp: sendText_def Let_def once_inv_def setter_defs split: option.splits if_splits)

lemma once_send: "once_inv t s \<Longrightarrow> once_inv t (send e raw s)"
  by (simp add: send_def once_sendText)

lemma once_onGreetingResponse: "once_inv t s \<Longrightarrow> once_inv t (onGreetingResponse a s)"
  by (simp add: onGreetingResponse_def once_restage split: option.splits task.splits fetch_stage.splits)

lemma once_onGreetingBody: "once_inv t s \<Longrightarrow> once_inv t (onGreetingBody e a raw s)"
  by (simp add: onGreetingBody_def once_restage once_greetingJoined
      split: option.splits task.splits fetch_stage.splits)

lemma once_onGreetingFailed: "once_inv t s \<Longrightarrow> once_inv t (onGreetingFailed e a s)"
  by (simp add: onGreetingFailed_def once_restage once_remove once_greetingJoined
      split: option.splits task.splits fetch_stage.splits)

lemma once_onAnimPoll: "once_inv t s \<Longrightarrow> once_inv t (onAnimPoll e a s)"
  by (simp add: onAnimPoll_def once_restage once_greetingJoined
      split: option.splits task.splits fetch_stage.splits bool.splits)

lemma once_onChatReply: "once_inv t s \<Longrightarrow> once_inv t (onChatReply e u x s)"
  by (simp add: onChatReply_def Let_def once_remove once_playTts split: option.splits task.splits)

lemma once_onChatFailed: "once_inv t s \<Longrightarrow> once_inv t (onChatFailed u s)"
  by (simp add: onChatFailed_def once_remove split: option.splits task.splits)

lemma once_onTtsResponse: "once_inv t s \<Longrightarrow> once_inv t (onTtsResponse u ok s)"
  by (auto simp: onTtsResponse_def once_inv_def upds
      split: option.splits task.splits tts_stage.splits if_splits)

lemma once_onTtsFailed: "once_inv t s \<Longrightarrow> once_inv t (onTtsFailed u s)"
  by (simp add: onTtsFailed_def once_remove split: option.splits task.splits tts_stage.splits)

lemma once_onPlayRejected: "once_inv t s \<Longrightarrow> once_inv t (onPlayRejected u s)"
  by (simp add: onPlayRejected_def once_remove split: option.splits task.splits tts_stage.splits)

lemma once_onPlayStarted: "once_inv t s \<Longrightarrow> once_inv t (onPlayStarted u s)"
  by (auto simp: onPlayStarted_def once_inv_def upds
      split: option.splits task.splits tts_stage.splits if_splits)

lemma once_handle: "once_inv t s \<Longrightarrow> once_inv t (handle e ev s)"
  by (cases ev)
     (simp_all add: handle_def once_resumeAborted once_onKey once_misc once_hangup once_send
        once_onGreetingResponse once_onGreetingBody once_onGreetingFailed once_onAnimPoll
        once_onChatReply once_onChatFailed once_onTtsResponse once_onTtsFailed
        once_onPlayStarted once_onPlayRejected)

lemma once_step: "once_inv t s \<Longrightarrow> once_inv t (step e ev s)"
  by (simp add: step_def Let_def once_handle)

lemma once_run: "once_inv t s \<Longrightarrow> once_inv t (run evs s)"
proof (induction evs arbitrary: s)
  case Nil
  then show ?case by simp
next
  case (Cons x evs)
  then show ?case by (cases x) (simp add: once_step)
qed


section \<open>Ringback and the greeting\<close>

lemma greetingJoined_empty:
  "greetingJoined e a n [] s = stopRingtone (s\<lparr>tasks := (tasks s)(a := None)\<rparr>)"
  by (simp add: greetingJoined_def Let_def)



lemma join_inv_ref [simp]: "join_inv a G A (s\<lparr>dialAnimPlayingRef := x\<rparr>) = join_inv a G A s"
  by (simp add: join_inv_def split: option.splits task.splits)


lemma handle_dead: "tasks s a = None \<Longrightarrow> flow_event a ev \<Longrightarrow> handle e ev s = s"
  by (cases ev)
     (simp_all add: handle_def onGreetingResponse_def onGreetingBody_def
        onGreetingFailed_def onAnimPoll_def)







lemma ring_step [simp]: "ringPatternTimerRef (step e ev s) = ringPatternTimerRef (handle e ev s)"
  "tasks (step e ev s) = tasks (handle e ev s)"
  "trace (step e ev s) = trace (handle e ev s)"
  "nextTask (step e ev s) = nextTask (handle e ev s)"
  "connectedNumber (step e ev s) = connectedNumber (handle e ev s)"
  "chatStatus (step e ev s) = chatStatus (handle e ev s)"
  "dialAnimPlayingRef (step e ev s) = dialAnimPlaying (handle e ev s)"
  "dialAnimPlaying (step e ev s) = dialAnimPlaying (handle e ev s)"
  "audioRef (step e ev s) = audioRef (handle e ev s)"
  by (simp_all add: step_def Let_def)

lemma handle_flow [simp]:
  "handle e (GreetingResponse a) s = onGreetingResponse a s"
  "handle e (GreetingBody a raw) s = onGreetingBody e a raw s"
  "handle e (GreetingFailed a) s = onGreetingFailed e a s"
  "handle e (AnimPoll a) s = onAnimPoll e a s"
  "handle e (ChatReply t x) s = onChatReply e t x s"
  "handle e (ChatFailed t) s = onChatFailed t s"
  "handle e (PlayStarted t) s = onPlayStarted t s"
  by (simp_all add: handle_def)



subsection \<open>Events outside a greeting call\<close>

lemma tame_iff:
  "tame aborted a s s' \<longleftrightarrow>
     nextTask s \<le> nextTask s' \<and>
     (tasks s' a = None \<or> tasks s' a = tasks s a
      \<or> (aborted \<and> (\<exists>n anim. tasks s a = Some (Greeting n anim Body)
                       \<and> tasks s' a = Some (Greeting n anim (Settled [])))))"
  by (auto simp: tame_def split: option.splits task.splits fetch_stage.splits)




lemma slot_tame: "greeting_slot a s \<Longrightarrow> tame aborted a s s' \<Longrightarrow> greeting_slot a s'"
  by (auto simp: tame_iff greeting_slot_def split: option.splits task.splits fetch_stage.splits)
























subsection \<open>What turns ringback off\<close>


























section \<open>The placeholder and its reveal\<close>

lemma last_append_msg: "last (append_msg m h) = m"
  by (simp add: append_msg_def slice_last_def)

lemma greetingJoined_request:
  assumes "g \<noteq> []" and "audioRef s \<noteq> None"
  shows "trace (greetingJoined e a n g s) = trace s
           @ [StopRingtone, SetState ''history'', SetState ''speaking'', StopTts,
              SetState ''ttsPlaying'', FetchTts (nextTask s) g (if n = [] then None else Some n)]"
    and "history (greetingJoined e a n g s)
           = append_msg (placeholder_msg (fresh_id ''a:'' e) e) (history s)"
    and "tasks (greetingJoined e a n g s) (nextTask s)
           = Some (Tts False (fresh_id ''a:'' e) g TtsFetching)"
proof -
  let ?s1 = "setSpeaking True (setHistory (append_msg (placeholder_msg (fresh_id ''a:'' e) e))
      (stopRingtone (s\<lparr>tasks := (tasks s)(a := None)\<rparr>)))"
  from assms(1) have j: "greetingJoined e a n g s = playTts False (fresh_id ''a:'' e) g n ?s1"
    by (simp add: greetingJoined_def Let_def)
  from assms(2) have b: "audioRef ?s1 \<noteq> None" by (simp add: upds)
  show "trace (greetingJoined e a n g s) = trace s
           @ [StopRingtone, SetState ''history'', SetState ''speaking'', StopTts,
              SetState ''ttsPlaying'', FetchTts (nextTask s) g (if n = [] then None else Some n)]"
    unfolding j playTts_request [OF assms(1) b] by (simp add: upds)
  show "history (greetingJoined e a n g s)
           = append_msg (placeholder_msg (fresh_id ''a:'' e) e) (history s)"
    unfolding j playTts_request [OF assms(1) b] by (simp add: upds)
  show "tasks (greetingJoined e a n g s) (nextTask s)
           = Some (Tts False (fresh_id ''a:'' e) g TtsFetching)"
    unfolding j playTts_request [OF assms(1) b] by (simp add: upds)
qed

lemma onChatReply_request:
  assumes "tasks s u = Some (Chat n)" and "x \<noteq> []" and "audioRef s \<noteq> None"
  shows "trace (onChatReply e u x s) = trace s
           @ [SetState ''history'', StopRingtone, SetState ''speaking'', StopTts,
              SetState ''ttsPlaying'', FetchTts (nextTask s) x (if n = [] then None else Some n)]"
    and "history (onChatReply e u x s)
           = append_msg (placeholder_msg (fresh_id ''a:'' e) e) (history s)"
    and "tasks (onChatReply e u x s) (nextTask s)
           = Some (Tts True (fresh_id ''a:'' e) x TtsFetching)"
proof -
  let ?s1 = "setSpeaking True (stopRingtone
      (setHistory (append_msg (placeholder_msg (fresh_id ''a:'' e) e))
        (s\<lparr>tasks := (tasks s)(u := None)\<rparr>)))"
  from assms(1,2) have j: "onChatReply e u x s = playTts True (fresh_id ''a:'' e) x n ?s1"
    by (simp add: onChatReply_def Let_def)
  from assms(3) have b: "audioRef ?s1 \<noteq> None" by (simp add: upds)
  show "trace (onChatReply e u x s) = trace s
           @ [SetState ''history'', StopRingtone, SetState ''speaking'', StopTts,
              SetState ''ttsPlaying'', FetchTts (nextTask s) x (if n = [] then None else Some n)]"
    unfolding j playTts_request [OF assms(2) b] by (simp add: upds)
  show "history (onChatReply e u x s)
           = append_msg (placeholder_msg (fresh_id ''a:'' e) e) (history s)"
    unfolding j playTts_request [OF assms(2) b] by (simp add: upds)
  show "tasks (onChatReply e u x s) (nextTask s)
           = Some (Tts True (fresh_id ''a:'' e) x TtsFetching)"
    unfolding j playTts_request [OF assms(2) b] by (simp add: upds)
qed

lemma onPlayStarted_reveal:
  assumes "tasks s t = Some (Tts c i y TtsStarting)"
  shows "history (onPlayStarted t s) = map (reveal i y) (history s)"
    and "trace (onPlayStarted t s) = trace s
           @ [SetState ''ttsPlaying'', OnStart t, SetState ''history'', SetState ''speaking'']
           @ (if c then [SetState ''chatStatus''] else [])"
  using assms by (simp_all add: onPlayStarted_def upds)

lemma unrevealed_Nil [simp]: "unrevealed i []"
  by (simp add: unrevealed_def)

lemma unrevealed_append:
  "unrevealed i h \<Longrightarrow>
   role m = user \<or> (pending m = Some True \<and> msg_text m = placeholder_text) \<Longrightarrow>
   unrevealed i (append_msg m h)"
  by (auto simp: unrevealed_def append_msg_def slice_last_def list_all_iff dest: in_set_dropD)

lemma unrevealed_reveal_other:
  "j \<noteq> i \<Longrightarrow> unrevealed i h \<Longrightarrow> unrevealed i (map (reveal j x) h)"
  by (auto simp: unrevealed_def reveal_def list_all_iff)

lemma fresh_bubble [simp]:
  "role (user_msg e x) = user"
  "pending (placeholder_msg i e) = Some True"
  "msg_text (placeholder_msg i e) = placeholder_text"
  by (simp_all add: user_msg_def placeholder_msg_def)

lemma quiet_same: "quiet h h"
  and quiet_Nil: "quiet h []"
  and quiet_user: "quiet h (append_msg (user_msg e x) h)"
  and quiet_placeholder: "quiet h (append_msg (placeholder_msg i e) h)"
  and quiet_placeholder_Nil: "quiet h (append_msg (placeholder_msg i e) [])"
  unfolding quiet_def using fresh_bubble by blast+

lemma quiet_resume:
  "history X = history s \<or> history X = [] \<Longrightarrow> quiet (history s) (history (resumeAborted e r X))"
  using history_resumeAborted [of e r X]
  by (auto intro: quiet_same quiet_Nil quiet_placeholder quiet_placeholder_Nil)

lemma history_handle_quiet:
  "quiet (history s) (history (handle e ev s))
   \<or> (\<exists>t c i y. ev = PlayStarted t \<and> tasks s t = Some (Tts c i y TtsStarting)
         \<and> history (handle e ev s) = map (reveal i y) (history s))"
proof (cases ev)
  case (Key k)
  have "history (onKey k s) = history s \<or> history (onKey k s) = []"
    by (simp add: history_onKey)
  with Key show ?thesis by (simp add: handle_def quiet_resume)
next
  case DialNow
  then show ?thesis by (simp add: handle_def quiet_resume)
next
  case (AddressBookSelect n)
  then show ?thesis by (simp add: handle_def quiet_resume)
next
  case Hangup
  then show ?thesis by (simp add: handle_def quiet_resume)
next
  case (Send raw)
  then show ?thesis
    using history_sendText [of e raw "setInput [] s"]
    by (auto simp: handle_def send_def setter_defs intro: quiet_same quiet_user)
next
  case (GreetingBody a raw)
  then show ?thesis
    using history_onGreetingBody [of e a raw s]
    by (auto simp: handle_def intro: quiet_same quiet_placeholder)
next
  case (AnimPoll a)
  then show ?thesis
    using history_onAnimPoll [of e a s]
    by (auto simp: handle_def intro: quiet_same quiet_placeholder)
next
  case (ChatReply t reply)
  then show ?thesis
    using history_onChatReply [of e t reply s]
    by (auto simp: handle_def intro: quiet_same quiet_placeholder)
next
  case (PlayStarted t)
  show ?thesis
  proof (cases "\<exists>c i y. tasks s t = Some (Tts c i y TtsStarting)")
    case True
    then obtain c i y where "tasks s t = Some (Tts c i y TtsStarting)" by blast
    with PlayStarted show ?thesis by (simp add: handle_def history_onPlayStarted)
  next
    case False
    then have "history (onPlayStarted t s) = history s"
      by (auto simp: history_onPlayStarted split: option.splits task.splits tts_stage.splits)
    with PlayStarted show ?thesis by (simp add: handle_def quiet_same)
  qed
qed (simp_all add: handle_def quiet_same)

lemma unrevealed_quiet: "quiet h h' \<Longrightarrow> unrevealed i h \<Longrightarrow> unrevealed i h'"
  unfolding quiet_def using unrevealed_append [of i h] unrevealed_append [of i "[]"]
  by (elim disjE exE conjE) simp_all

lemma length_quiet: "quiet h h' \<Longrightarrow> length h \<le> 60 \<Longrightarrow> length h' \<le> 60"
  unfolding quiet_def by (elim disjE exE conjE) (simp_all add: length_append_msg)

lemma reveal_only_at_start:
  assumes "unrevealed i (history s)" and "\<not> unrevealed i (history (step e ev s))"
  shows "\<exists>t c y. ev = PlayStarted t \<and> tasks s t = Some (Tts c i y TtsStarting)"
proof -
  from assms(2) have n: "\<not> unrevealed i (history (handle e ev s))" by (simp add: history_step)
  with assms(1) have "\<not> quiet (history s) (history (handle e ev s))"
    using unrevealed_quiet by blast
  with history_handle_quiet [of s e ev]
  obtain t c j y where p: "ev = PlayStarted t" "tasks s t = Some (Tts c j y TtsStarting)"
      "history (handle e ev s) = map (reveal j y) (history s)"
    by blast
  have "j = i"
  proof (rule ccontr)
    assume "j \<noteq> i"
    then have "unrevealed i (map (reveal j y) (history s))"
      using assms(1) by (rule unrevealed_reveal_other)
    with n p(3) show False by simp
  qed
  with p show ?thesis by blast
qed

text \<open>
  Claim C3. When the greeting call, or a chat reply with text, issues the synthesis request
  (an audio element being mounted), the placeholder is in the transcript: the request is the
  last call logged, the last message of the transcript is the placeholder, pending and with
  the text \<open>...\<close> of one character, and the speak is registered under the identifier of the
  placeholder. A step after which some assistant message of identifier \<open>i\<close> is no longer a
  pending placeholder is the resolution of \<open>play()\<close> for a speak of that identifier; that
  step calls \<open>onStart\<close>, which puts the spoken text into the messages of that identifier and
  clears their flag. Over every run, the \<open>onStart\<close> of one speak is called at most once.
\<close>

theorem placeholder_reveal_order:
  "(g \<noteq> [] \<and> audioRef s \<noteq> None \<longrightarrow>
      trace (greetingJoined e a n g s) = trace s
        @ [StopRingtone, SetState ''history'', SetState ''speaking'', StopTts,
           SetState ''ttsPlaying'', FetchTts (nextTask s) g (if n = [] then None else Some n)]
      \<and> last (history (greetingJoined e a n g s)) = placeholder_msg (fresh_id ''a:'' e) e
      \<and> pending (last (history (greetingJoined e a n g s))) = Some True
      \<and> msg_text (last (history (greetingJoined e a n g s))) = placeholder_text
      \<and> tasks (greetingJoined e a n g s) (nextTask s)
          = Some (Tts False (fresh_id ''a:'' e) g TtsFetching))
   \<and> (tasks s u = Some (Chat n) \<and> x \<noteq> [] \<and> audioRef s \<noteq> None \<longrightarrow>
      trace (onChatReply e u x s) = trace s
        @ [SetState ''history'', StopRingtone, SetState ''speaking'', StopTts,
           SetState ''ttsPlaying'', FetchTts (nextTask s) x (if n = [] then None else Some n)]
      \<and> last (history (onChatReply e u x s)) = placeholder_msg (fresh_id ''a:'' e) e
      \<and> pending (last (history (onChatReply e u x s))) = Some True
      \<and> msg_text (last (history (onChatReply e u x s))) = placeholder_text
      \<and> tasks (onChatReply e u x s) (nextTask s)
          = Some (Tts True (fresh_id ''a:'' e) x TtsFetching))
   \<and> (unrevealed i (history s) \<and> \<not> unrevealed i (history (step e ev s)) \<longrightarrow>
      (\<exists>t c y. ev = PlayStarted t \<and> tasks s t = Some (Tts c i y TtsStarting)))
   \<and> (tasks s t = Some (Tts c i y TtsStarting) \<longrightarrow>
      history (step e (PlayStarted t) s) = map (reveal i y) (history s)
      \<and> trace (step e (PlayStarted t) s) = trace s
           @ [SetState ''ttsPlaying'', OnStart t, SetState ''history'', SetState ''speaking'']
           @ (if c then [SetState ''chatStatus''] else []))
   \<and> (once_inv k s \<longrightarrow> count_list (trace (run evs s)) (OnStart k) \<le> 1)"
proof -
  have p1: "trace (greetingJoined e a n g s) = trace s
        @ [StopRingtone, SetState ''history'', SetState ''speaking'', StopTts,
           SetState ''ttsPlaying'', FetchTts (nextTask s) g (if n = [] then None else Some n)]
      \<and> last (history (greetingJoined e a n g s)) = placeholder_msg (fresh_id ''a:'' e) e
      \<and> pending (last (history (greetingJoined e a n g s))) = Some True
      \<and> msg_text (last (history (greetingJoined e a n g s))) = placeholder_text
      \<and> tasks (greetingJoined e a n g s) (nextTask s)
          = Some (Tts False (fresh_id ''a:'' e) g TtsFetching)"
    if "g \<noteq> [] \<and> audioRef s \<noteq> None"
    using that greetingJoined_request [of g s e a n]
    by (simp add: last_append_msg)
  have p2: "trace (onChatReply e u x s) = trace s
        @ [SetState ''history'', StopRingtone, SetState ''speaking'', StopTts,
           SetState ''ttsPlaying'', FetchTts (nextTask s) x (if n = [] then None else Some n)]
      \<and> last (history (onChatReply e u x s)) = placeholder_msg (fresh_id ''a:'' e) e
      \<and> pending (last (history (onChatReply e u x s))) = Some True
      \<and> msg_text (last (history (onChatReply e u x s))) = placeholder_text
      \<and> tasks (onChatReply e u x s) (nextTask s)
          = Some (Tts True (fresh_id ''a:'' e) x TtsFetching)"
    if "tasks s u = Some (Chat n) \<and> x \<noteq> [] \<and> audioRef s \<noteq> None"
    using that onChatReply_request [of s u n x e]
    by (simp add: last_append_msg)
  have p3: "\<exists>t c y. ev = PlayStarted t \<and> tasks s t = Some (Tts c i y TtsStarting)"
    if "unrevealed i (history s) \<and> \<not> unrevealed i (history (step e ev s))"
    using that reveal_only_at_start [of i s e ev] by blast
  have p4: "history (step e (PlayStarted t) s) = map (reveal i y) (history s)
      \<and> trace (step e (PlayStarted t) s) = trace s
           @ [SetState ''ttsPlaying'', OnStart t, SetState ''history'', SetState ''speaking'']
           @ (if c then [SetState ''chatStatus''] else [])"
    if "tasks s t = Some (Tts c i y TtsStarting)"
    using onPlayStarted_reveal [OF that] by (simp add: history_step)
  have p5: "count_list (trace (run evs s)) (OnStart k) \<le> 1" if "once_inv k s"
    using once_run [OF that, of evs] by (auto simp: once_inv_def split: if_splits)
  from p1 p2 p3 p4 p5 show ?thesis by blast
qed

lemma awaiting_reply_fields:
  "tasks awaiting_reply 2 = Some (Chat (js ''18005551212''))"
  "audioRef awaiting_reply \<noteq> None"
  "chatStatus awaiting_reply = submitted"
  "connectedNumber awaiting_reply = Some (js ''18005551212'')"
  by (simp_all add: awaiting_reply_def in_call_def initial_def)

lemma awaiting_audio_fields:
  "tasks awaiting_audio 1 = Some (Tts False (js ''a:17:8f3a'') (js ''Hello'') TtsStarting)"
  "history awaiting_audio = [placeholder_msg (js ''a:17:8f3a'') entropy0]"
  "nextTask awaiting_audio = 2"
  "trace awaiting_audio = []"
  by (simp_all add: awaiting_audio_def initial_def)

theorem placeholder_reveal_order_witness:
  "audioRef ringing_call \<noteq> None
   \<and> msg_text (last (history (greetingJoined entropy0 0 (js ''18005551212'') (js ''Hello'') ringing_call)))
       = placeholder_text
   \<and> tasks awaiting_reply 2 = Some (Chat (js ''18005551212''))
   \<and> pending (last (history (onChatReply entropy0 2 (js ''Up.'') awaiting_reply))) = Some True
   \<and> unrevealed (js ''a:17:8f3a'') (history awaiting_audio)
   \<and> tasks awaiting_audio 1 = Some (Tts False (js ''a:17:8f3a'') (js ''Hello'') TtsStarting)
   \<and> map msg_text (history (step entropy0 (PlayStarted 1) awaiting_audio)) = [js ''Hello'']
   \<and> \<not> unrevealed (js ''a:17:8f3a'') (history (step entropy0 (PlayStarted 1) awaiting_audio))
   \<and> once_inv 1 awaiting_audio
   \<and> count_list (trace (run [(entropy0, PlayStarted 1), (entropy0, PlayStarted 1)] awaiting_audio))
        (OnStart 1) \<le> 1"
proof -
  have a1: "js ''Hello'' \<noteq> [] \<and> audioRef ringing_call \<noteq> None"
    by (simp add: ringing_call_eq initial_def js_def)
  note t1 = placeholder_reveal_order [where g = "js ''Hello''" and s = ringing_call and e = entropy0
      and a = 0 and n = "js ''18005551212''"]
  from t1 a1
  have w1: "msg_text (last (history (greetingJoined entropy0 0 (js ''18005551212'') (js ''Hello'') ringing_call)))
       = placeholder_text"
    by blast
  have a2: "tasks awaiting_reply 2 = Some (Chat (js ''18005551212'')) \<and> js ''Up.'' \<noteq> []
      \<and> audioRef awaiting_reply \<noteq> None"
    by (simp add: awaiting_reply_fields js_def)
  note t2 = placeholder_reveal_order [where s = awaiting_reply and u = 2 and n = "js ''18005551212''"
      and x = "js ''Up.''" and e = entropy0]
  from t2 a2
  have w2: "pending (last (history (onChatReply entropy0 2 (js ''Up.'') awaiting_reply))) = Some True"
    by blast
  note t3 = placeholder_reveal_order [where s = awaiting_audio and t = 1 and c = False
      and i = "js ''a:17:8f3a''" and y = "js ''Hello''" and e = entropy0 and k = 1
      and evs = "[(entropy0, PlayStarted 1), (entropy0, PlayStarted 1)]"]
  from t3 awaiting_audio_fields(1)
  have h: "history (step entropy0 (PlayStarted 1) awaiting_audio)
      = map (reveal (js ''a:17:8f3a'') (js ''Hello'')) (history awaiting_audio)"
    by blast
  have w3: "unrevealed (js ''a:17:8f3a'') (history awaiting_audio)"
    by (simp add: awaiting_audio_fields unrevealed_def)
  have w4: "map msg_text (history (step entropy0 (PlayStarted 1) awaiting_audio)) = [js ''Hello'']
      \<and> \<not> unrevealed (js ''a:17:8f3a'') (history (step entropy0 (PlayStarted 1) awaiting_audio))"
    unfolding h
    by (simp add: awaiting_audio_fields unrevealed_def reveal_def placeholder_msg_def)
  have w5: "once_inv 1 awaiting_audio"
    by (simp add: once_inv_def awaiting_audio_fields)
  from t3 w5
  have w6: "count_list (trace (run [(entropy0, PlayStarted 1), (entropy0, PlayStarted 1)] awaiting_audio))
        (OnStart 1) \<le> 1"
    by blast
  from a1 w1 a2 w2 w3 awaiting_audio_fields(1) w4 w5 w6 show ?thesis by blast
qed


section \<open>Upstream failures\<close>

lemma step_eq: "step e ev s = (handle e ev s)\<lparr>dialAnimPlayingRef := dialAnimPlaying (handle e ev s)\<rparr>"
  by (simp add: step_def Let_def)

text \<open>
  An empty reply text (also a reply that does not parse) ends the send with status \<open>ready\<close>
  and nothing else: no message, no synthesis request. An empty greeting stops ringback at
  the join and nothing else.
\<close>

lemma empty_chat_reply:
  "tasks s t = Some (Chat n) \<Longrightarrow>
   onChatReply e t [] s = setChatStatus ready (s\<lparr>tasks := (tasks s)(t := None)\<rparr>)"
  by (simp add: onChatReply_def)

lemma sendText_submits:
  "connectedNumber s = Some n \<Longrightarrow> n \<noteq> [] \<Longrightarrow> trim raw \<noteq> [] \<Longrightarrow>
   sendText e raw s = s\<lparr>chatStatus := submitted,
      history := append_msg (user_msg e (trim raw)) (history s),
      tasks := (tasks s)(nextTask s \<mapsto> Chat n),
      nextTask := Suc (nextTask s),
      trace := trace s @ [SetState ''chatStatus'', SetState ''history'',
                          FetchChat (nextTask s) n (trim raw)]\<rparr>"
  by (simp add: sendText_def upds)

lemma empty_greeting:
  "tasks s a = Some (Greeting n True Body) \<Longrightarrow> trim raw = [] \<Longrightarrow>
   onGreetingBody e a raw s = stopRingtone (s\<lparr>tasks := (tasks s)(a := None)\<rparr>)"
  by (simp add: onGreetingBody_def greetingJoined_empty)

text \<open>
  Claim C4, when the \<open>fetch\<close> itself rejects. In \<open>generateGreeting\<close> the rejection of
  \<open>greetP\<close> makes \<open>Promise.all\<close> throw before \<open>stopRingtone()\<close>, and \<open>connectFromDial\<close>
  swallows it: the step only drops the pending call, so ringback stays on with the number
  connected, and every later event of that call finds it gone and changes nothing. In
  \<open>sendText\<close> the rejection leaves the function before \<open>setChatStatus('ready')\<close>: the step
  only drops the pending call, so the status stays \<open>submitted\<close>.
\<close>

theorem fetch_rejection_stalls:
  "(tasks s a = Some (Greeting n anim Headers) \<longrightarrow>
      step e (GreetingFailed a) s
        = s\<lparr>tasks := (tasks s)(a := None), dialAnimPlayingRef := dialAnimPlaying s\<rparr>)
   \<and> (tasks s a = None \<and> flow_event a ev \<longrightarrow>
      step e ev s = s\<lparr>dialAnimPlayingRef := dialAnimPlaying s\<rparr>)
   \<and> (tasks s t = Some (Chat n) \<longrightarrow>
      step e (ChatFailed t) s
        = s\<lparr>tasks := (tasks s)(t := None), dialAnimPlayingRef := dialAnimPlaying s\<rparr>)"
proof -
  have p1: "step e (GreetingFailed a) s
        = s\<lparr>tasks := (tasks s)(a := None), dialAnimPlayingRef := dialAnimPlaying s\<rparr>"
    if "tasks s a = Some (Greeting n anim Headers)"
    using that by (simp add: step_eq onGreetingFailed_def)
  have p2: "step e ev s = s\<lparr>dialAnimPlayingRef := dialAnimPlaying s\<rparr>"
    if "tasks s a = None \<and> flow_event a ev"
    using that handle_dead [of s a ev e] by (simp add: step_eq)
  have p3: "step e (ChatFailed t) s
        = s\<lparr>tasks := (tasks s)(t := None), dialAnimPlayingRef := dialAnimPlaying s\<rparr>"
    if "tasks s t = Some (Chat n)"
    using that by (simp add: step_eq onChatFailed_def)
  from p1 p2 p3 show ?thesis by blast
qed

theorem fetch_rejection_stalls_witness:
  "tasks ringing_call 0 = Some (Greeting (js ''18005551212'') True Headers)
   \<and> ringPatternTimerRef (step entropy0 (GreetingFailed 0) ringing_call)
   \<and> connectedNumber (step entropy0 (GreetingFailed 0) ringing_call) = Some (js ''18005551212'')
   \<and> tasks (step entropy0 (GreetingFailed 0) ringing_call) 0 = None
   \<and> ringPatternTimerRef
        (step entropy0 (AnimPoll 0) (step entropy0 (GreetingFailed 0) ringing_call))
   \<and> tasks awaiting_reply 2 = Some (Chat (js ''18005551212''))
   \<and> chatStatus (step entropy0 (ChatFailed 2) awaiting_reply) = submitted
   \<and> tasks (step entropy0 (ChatFailed 2) awaiting_reply) 2 = None"
proof -
  have a: "tasks ringing_call 0 = Some (Greeting (js ''18005551212'') True Headers)"
    by (simp add: ringing_call_eq)
  note t1 = fetch_rejection_stalls [where s = ringing_call and a = 0 and n = "js ''18005551212''"
      and anim = True and e = entropy0]
  from t1 a have s1: "step entropy0 (GreetingFailed 0) ringing_call
      = ringing_call\<lparr>tasks := (tasks ringing_call)(0 := None),
                     dialAnimPlayingRef := dialAnimPlaying ringing_call\<rparr>"
    by blast
  have w1: "ringPatternTimerRef (step entropy0 (GreetingFailed 0) ringing_call)
      \<and> connectedNumber (step entropy0 (GreetingFailed 0) ringing_call) = Some (js ''18005551212'')
      \<and> tasks (step entropy0 (GreetingFailed 0) ringing_call) 0 = None"
    unfolding s1 by (simp add: ringing_call_eq)
  note t2 = fetch_rejection_stalls [where s = "step entropy0 (GreetingFailed 0) ringing_call"
      and a = 0 and ev = "AnimPoll 0" and e = entropy0]
  from t2 w1 have "step entropy0 (AnimPoll 0) (step entropy0 (GreetingFailed 0) ringing_call)
      = (step entropy0 (GreetingFailed 0) ringing_call)
          \<lparr>dialAnimPlayingRef := dialAnimPlaying (step entropy0 (GreetingFailed 0) ringing_call)\<rparr>"
    by simp
  with w1 have w2: "ringPatternTimerRef
        (step entropy0 (AnimPoll 0) (step entropy0 (GreetingFailed 0) ringing_call))"
    by simp
  note t3 = fetch_rejection_stalls [where s = awaiting_reply and t = 2 and n = "js ''18005551212''"
      and e = entropy0]
  from t3 awaiting_reply_fields(1) have "step entropy0 (ChatFailed 2) awaiting_reply
      = awaiting_reply\<lparr>tasks := (tasks awaiting_reply)(2 := None),
                       dialAnimPlayingRef := dialAnimPlaying awaiting_reply\<rparr>"
    by blast
  then have w3: "chatStatus (step entropy0 (ChatFailed 2) awaiting_reply) = submitted
      \<and> tasks (step entropy0 (ChatFailed 2) awaiting_reply) 2 = None"
    by (simp add: awaiting_reply_fields)
  from a w1 w2 awaiting_reply_fields(1) w3 show ?thesis by blast
qed


end
